theory Spec2Isabelle
  imports Main "HOL-Library.Word"
begin

unbundle bit_operations_syntax

section \<open>Python values\<close>

text \<open>
  The values that \<^verbatim>\<open>Response.json()\<close> returns and that the session records hold
  (\<^verbatim>\<open>Dict[str, Any]\<close>). \<open>JNull\<close> is Python's \<^verbatim>\<open>None\<close>; a \<open>JObj\<close> is a dict,
  given by its items in insertion order. Numbers with a fraction or an exponent
  are outside the model.
\<close>

datatype json =
    JNull
  | JBool bool
  | JNum int
  | JStr string
  | JArr "json list"
  | JObj "(string \<times> json) list"

text \<open>The exceptions that can leave a handler.\<close>

datatype exn =
    RequestError         \<comment> \<open>httpx could not complete the request\<close>
  | JSONDecodeError      \<comment> \<open>\<^verbatim>\<open>Response.json()\<close> on a body that is not JSON\<close>
  | AttributeError       \<comment> \<open>\<^verbatim>\<open>.get\<close> on a value that is not a dict\<close>

text \<open>Truth value testing, as \<^verbatim>\<open>if not x\<close> does it.\<close>

fun truthy :: "json \<Rightarrow> bool" where
  "truthy JNull = False"
| "truthy (JBool b) = b"
| "truthy (JNum n) = (n \<noteq> 0)"
| "truthy (JStr s) = (s \<noteq> [])"
| "truthy (JArr xs) = (xs \<noteq> [])"
| "truthy (JObj kvs) = (kvs \<noteq> [])"

text \<open>\<^verbatim>\<open>d.get(k)\<close> on a dict: the value, or \<^verbatim>\<open>None\<close> when the key is missing.\<close>

definition dict_get :: "(string \<times> json) list \<Rightarrow> string \<Rightarrow> json" where
  "dict_get d k = (case map_of d k of None \<Rightarrow> JNull | Some v \<Rightarrow> v)"

text \<open>
  \<^verbatim>\<open>v.get(k)\<close> on a decoded JSON value: only a dict has the method, every other
  value raises \<^verbatim>\<open>AttributeError\<close>.
\<close>

fun py_get :: "json \<Rightarrow> string \<Rightarrow> exn + json" where
  "py_get (JObj d) k = Inr (dict_get d k)"
| "py_get _ k = Inl AttributeError"

subsection \<open>\<^verbatim>\<open>str()\<close>, as the f-string of the bearer header applies it\<close>

definition digit_char :: "nat \<Rightarrow> char" where
  "digit_char n = ''0123456789'' ! (n mod 10)"

fun str_nat :: "nat \<Rightarrow> string" where
  "str_nat n = (if n < 10 then [digit_char n] else str_nat (n div 10) @ [digit_char n])"

definition str_int :: "int \<Rightarrow> string" where
  "str_int i = (if i < 0 then CHR ''-'' # str_nat (nat (- i)) else str_nat (nat i))"

definition hex_lower :: "nat \<Rightarrow> char" where
  "hex_lower n = ''0123456789abcdef'' ! (n mod 16)"

definition hex_upper :: "nat \<Rightarrow> char" where
  "hex_upper n = ''0123456789ABCDEF'' ! (n mod 16)"

text \<open>
  \<^verbatim>\<open>repr\<close> of a string: single quotes unless the string has a single quote and no
  double quote; backslash, the chosen quote, tab, newline and carriage return are
  escaped, other ASCII control characters are written \<^verbatim>\<open>\xNN\<close>.
  Bytes above 127 are left as they are: the non-printable characters that Python also
  escapes there are outside the model.
\<close>

definition repr_char :: "char \<Rightarrow> char \<Rightarrow> string" where
  "repr_char q c =
     (if c = q \<or> c = CHR 0x5C then [CHR 0x5C, c]
      else if c = CHR 0x09 then [CHR 0x5C, CHR ''t'']
      else if c = CHR 0x0A then [CHR 0x5C, CHR ''n'']
      else if c = CHR 0x0D then [CHR 0x5C, CHR ''r'']
      else if (of_char c :: nat) < 32 \<or> (of_char c :: nat) = 127
        then [CHR 0x5C, CHR ''x'', hex_lower (of_char c div 16), hex_lower (of_char c)]
      else [c])"

definition repr_str :: "string \<Rightarrow> string" where
  "repr_str s =
     (let q = (if CHR 0x27 \<in> set s \<and> CHR 0x22 \<notin> set s then CHR 0x22 else CHR 0x27)
      in q # concat (map (repr_char q) s) @ [q])"

fun join :: "string \<Rightarrow> string list \<Rightarrow> string" where
  "join sep [] = []"
| "join sep [x] = x"
| "join sep (x # y # ys) = x @ sep @ join sep (y # ys)"

fun py_repr :: "json \<Rightarrow> string" where
  "py_repr JNull = ''None''"
| "py_repr (JBool b) = (if b then ''True'' else ''False'')"
| "py_repr (JNum n) = str_int n"
| "py_repr (JStr s) = repr_str s"
| "py_repr (JArr xs) = ''['' @ join '', '' (map py_repr xs) @ '']''"
| "py_repr (JObj kvs) =
     ''{'' @ join '', '' (map (\<lambda>kv. repr_str (fst kv) @ '': '' @ py_repr (snd kv)) kvs) @ ''}''"

fun py_str :: "json \<Rightarrow> string" where
  "py_str (JStr s) = s"
| "py_str v = py_repr v"

section \<open>Configuration (\<^verbatim>\<open>types.py\<close>)\<close>

datatype samesite = Lax | Strict | SameSiteNone

record OIDCSettings =
  CLIENT_ID :: string
  CLIENT_SECRET :: string
  ISSUER_URL :: string
  AUTHORIZE_URL :: string
  TOKEN_URL :: string
  USERINFO_URL :: string
  REDIRECT_URI :: string
  SCOPE :: string
  COOKIE_SECURE :: bool
  COOKIE_SAMESITE :: samesite

text \<open>
  \<^verbatim>\<open>OIDCSettings()\<close> is a pydantic \<^verbatim>\<open>BaseSettings\<close> with \<^verbatim>\<open>env_prefix='OIDC_'\<close> and
  \<^verbatim>\<open>case_sensitive\<close> unset, so that variable names are matched without regard to case:
  pydantic-settings builds the dict \<^verbatim>\<open>env_vars = {k.lower(): v for k, v in os.env_vars.items()}\<close>
  and reads every field from it under the lower-cased name \<^verbatim>\<open>(env_prefix + field).lower()\<close>.
  The argument \<open>env_vars\<close> of the functions below is that dict: the environment with its
  variable names in lower case (\<^verbatim>\<open>OIDC_CLIENT_ID\<close> and \<^verbatim>\<open>oidc_client_id\<close> both arrive as
  \<^verbatim>\<open>oidc_client_id\<close>). Every field is validated against its declared type.
  \<^verbatim>\<open>Field(...)\<close> makes a field required; the other fields carry their default. A \<^verbatim>\<open>str\<close>
  field accepts every string (the declarations give no \<^verbatim>\<open>min_length\<close>, and an empty value
  is not ignored), a \<^verbatim>\<open>bool\<close> field the words pydantic reads as booleans, ignoring the
  case of ASCII letters, and the \<^verbatim>\<open>Literal\<close> field exactly its three members. All errors
  are collected, in field order, and raised together.
\<close>

datatype error_type = missing | bool_parsing | literal_error

type_synonym validation_error = "(string \<times> error_type) list"

definition lower_char :: "char \<Rightarrow> char" where
  "lower_char c =
     (if (65::nat) \<le> of_char c \<and> (of_char c :: nat) \<le> 90 then char_of (of_char c + (32::nat)) else c)"

definition parse_bool :: "string \<Rightarrow> bool option" where
  "parse_bool s =
     (let l = map lower_char s in
      if l \<in> set [''1'', ''on'', ''t'', ''true'', ''y'', ''yes''] then Some True
      else if l \<in> set [''0'', ''off'', ''f'', ''false'', ''n'', ''no''] then Some False
      else None)"

definition parse_samesite :: "string \<Rightarrow> samesite option" where
  "parse_samesite s =
     (if s = ''lax'' then Some Lax
      else if s = ''strict'' then Some Strict
      else if s = ''none'' then Some SameSiteNone
      else None)"

definition required_fields :: "string list" where
  "required_fields =
     [''CLIENT_ID'', ''CLIENT_SECRET'', ''ISSUER_URL'', ''AUTHORIZE_URL'', ''TOKEN_URL'',
      ''USERINFO_URL'']"

definition env_prefix :: string where
  "env_prefix = ''OIDC_''"

definition env_name :: "string \<Rightarrow> string" where
  "env_name field = map lower_char (env_prefix @ field)"

definition field_errors :: "(string \<rightharpoonup> string) \<Rightarrow> validation_error" where
  "field_errors env_vars =
     map (\<lambda>f. (f, missing)) (filter (\<lambda>f. env_vars (env_name f) = None) required_fields)
     @ (case env_vars (env_name ''COOKIE_SECURE'') of
          None \<Rightarrow> []
        | Some s \<Rightarrow> (if parse_bool s = None then [(''COOKIE_SECURE'', bool_parsing)] else []))
     @ (case env_vars (env_name ''COOKIE_SAMESITE'') of
          None \<Rightarrow> []
        | Some s \<Rightarrow>
            (if parse_samesite s = None then [(''COOKIE_SAMESITE'', literal_error)] else []))"

definition str_field :: "(string \<rightharpoonup> string) \<Rightarrow> string \<Rightarrow> string \<Rightarrow> string" where
  "str_field env_vars field dflt = (case env_vars (env_name field) of None \<Rightarrow> dflt | Some s \<Rightarrow> s)"

definition OIDCSettings_init :: "(string \<rightharpoonup> string) \<Rightarrow> validation_error + OIDCSettings" where
  "OIDCSettings_init env_vars =
     (if field_errors env_vars \<noteq> [] then Inl (field_errors env_vars)
      else Inr \<lparr>
        CLIENT_ID = str_field env_vars ''CLIENT_ID'' [],
        CLIENT_SECRET = str_field env_vars ''CLIENT_SECRET'' [],
        ISSUER_URL = str_field env_vars ''ISSUER_URL'' [],
        AUTHORIZE_URL = str_field env_vars ''AUTHORIZE_URL'' [],
        TOKEN_URL = str_field env_vars ''TOKEN_URL'' [],
        USERINFO_URL = str_field env_vars ''USERINFO_URL'' [],
        REDIRECT_URI = str_field env_vars ''REDIRECT_URI'' ''http://localhost:8000/oidc/callback'',
        SCOPE = str_field env_vars ''SCOPE'' ''openid email profile'',
        COOKIE_SECURE =
          (case env_vars (env_name ''COOKIE_SECURE'') of
             None \<Rightarrow> False
           | Some s \<Rightarrow> (case parse_bool s of Some b \<Rightarrow> b | None \<Rightarrow> False)),
        COOKIE_SAMESITE =
          (case env_vars (env_name ''COOKIE_SAMESITE'') of
             None \<Rightarrow> Lax
           | Some s \<Rightarrow> (case parse_samesite s of Some p \<Rightarrow> p | None \<Rightarrow> Lax)) \<rparr>)"

text \<open>
  The step before: \<^verbatim>\<open>{k.lower(): v for k, v in os.environ.items()}\<close>, on the environment as
  the list of its variables. Where two names differ only in case, the later one wins.
  \<^verbatim>\<open>str.lower\<close> is a parameter; on ASCII names it is \<open>map lower_char\<close>.
\<close>

definition parse_env_vars ::
  "(string \<Rightarrow> string) \<Rightarrow> (string \<times> string) list \<Rightarrow> (string \<rightharpoonup> string)" where
  "parse_env_vars lower environ = map_of (rev (map (\<lambda>(k, v). (lower k, v)) environ))"

definition OIDCSettings_load ::
  "(string \<Rightarrow> string) \<Rightarrow> (string \<times> string) list \<Rightarrow> validation_error + OIDCSettings" where
  "OIDCSettings_load lower environ = OIDCSettings_init (parse_env_vars lower environ)"

section \<open>Requests and responses of the web framework\<close>

text \<open>
  A request, as the handlers read it: \<open>query_params r k\<close> is what
  \<^verbatim>\<open>request.query_params.get(k)\<close> returns and \<open>cookies r k\<close> what
  \<^verbatim>\<open>request.cookies.get(k)\<close> returns.
\<close>

record request =
  query_params :: "string \<rightharpoonup> string"
  cookies :: "string \<rightharpoonup> string"

text \<open>
  One \<^verbatim>\<open>Set-Cookie\<close> header, by the arguments of Starlette's
  \<^verbatim>\<open>set_cookie(key, value="", max_age=None, expires=None, path="/", domain=None,
  secure=False, httponly=False, samesite="lax")\<close>.
\<close>

record set_cookie_header =
  key :: string
  val :: string
  max_age :: "int option"
  expires :: "int option"
  path :: "string option"
  domain :: "string option"
  secure :: bool
  httponly :: bool
  samesite :: "samesite option"

record response =
  status :: int
  location :: "string option"
  content :: "json option"
  set_cookies :: "set_cookie_header list"

definition JSONResponse :: "json \<Rightarrow> int \<Rightarrow> response" where
  "JSONResponse body code =
     \<lparr>status = code, location = None, content = Some body, set_cookies = []\<rparr>"

text \<open>
  \<^verbatim>\<open>urllib.parse.quote(url, safe=":/%#?=@[]!$&'()*+,;")\<close>: letters, digits, \<^verbatim>\<open>_.-~\<close> and
  the characters of \<^verbatim>\<open>safe\<close> stay, every other byte becomes \<^verbatim>\<open>%XX\<close>.
\<close>

definition always_safe :: string where
  "always_safe = ''ABCDEFGHIJKLMNOPQRSTUVWXYZabcdefghijklmnopqrstuvwxyz0123456789_.-~''"

definition redirect_safe :: string where
  "redirect_safe = '':/%#?=@[]!$&'' @ [CHR 0x27] @ ''()*+,;''"

definition quote_char :: "char \<Rightarrow> string" where
  "quote_char c =
     (if c \<in> set (always_safe @ redirect_safe) then [c]
      else [CHR ''%'', hex_upper (of_char c div 16), hex_upper (of_char c)])"

definition quote :: "string \<Rightarrow> string" where
  "quote s = concat (map quote_char s)"

text \<open>
  Starlette's \<^verbatim>\<open>RedirectResponse(url, status_code=307)\<close>: an empty body and the quoted
  URL as \<^verbatim>\<open>Location\<close>. The handlers never pass a status code.
\<close>

definition RedirectResponse :: "string \<Rightarrow> response" where
  "RedirectResponse url =
     \<lparr>status = 307, location = Some (quote url), content = None, set_cookies = []\<rparr>"

definition set_cookie ::
  "response \<Rightarrow> string \<Rightarrow> string \<Rightarrow> int option \<Rightarrow> int option \<Rightarrow> bool \<Rightarrow> bool \<Rightarrow> samesite option
     \<Rightarrow> response" where
  "set_cookie resp k v age exp sec http site =
     resp\<lparr>set_cookies := set_cookies resp @
       [\<lparr>key = k, val = v, max_age = age, expires = exp, path = Some ''/'', domain = None,
         secure = sec, httponly = http, samesite = site\<rparr>]\<rparr>"

text \<open>\<^verbatim>\<open>delete_cookie(key)\<close> is \<^verbatim>\<open>set_cookie(key, max_age=0, expires=0, ...)\<close> with the defaults.\<close>

definition delete_cookie :: "response \<Rightarrow> string \<Rightarrow> response" where
  "delete_cookie resp k = set_cookie resp k [] (Some 0) (Some 0) False False (Some Lax)"

section \<open>Identifiers (\<^verbatim>\<open>str(uuid.uuid4())\<close>)\<close>

text \<open>
  A UUID is its 128-bit integer; \<^verbatim>\<open>str\<close> prints it as 32 lower-case hexadecimal
  digits in groups of 8, 4, 4, 4 and 12.
\<close>

type_synonym uuid = "128 word"

definition hex32 :: "uuid \<Rightarrow> string" where
  "hex32 u = map (\<lambda>i. hex_lower (unat (drop_bit (4 * (31 - i)) u AND 15))) [0..<32]"

definition str_uuid :: "uuid \<Rightarrow> string" where
  "str_uuid u =
     (let h = hex32 u in
      take 8 h @ ''-'' @ take 4 (drop 8 h) @ ''-'' @ take 4 (drop 12 h) @ ''-''
        @ take 4 (drop 16 h) @ ''-'' @ drop 20 h)"

section \<open>The world outside the process\<close>

text \<open>The response of an httpx request: \<open>body_json\<close> is \<open>None\<close> when the body is not JSON.\<close>

record httpx_response =
  status_code :: int
  body_json :: "json option"

text \<open>
  What one handler call meets outside: the answer of the provider to a
  \<^verbatim>\<open>client.post(url, data=..., headers=...)\<close> and to a \<^verbatim>\<open>client.get(url, headers=...)\<close>
  (\<open>Inl\<close> when httpx raises), and the UUID that \<^verbatim>\<open>uuid.uuid4()\<close> draws.
\<close>

record env =
  post :: "string \<Rightarrow> (string \<times> json) list \<Rightarrow> (string \<times> string) list \<Rightarrow> exn + httpx_response"
  get :: "string \<Rightarrow> (string \<times> string) list \<Rightarrow> exn + httpx_response"
  uuid4 :: uuid

section \<open>The session store (\<^verbatim>\<open>session.py\<close>)\<close>

text \<open>\<^verbatim>\<open>InMemorySessionStore\<close> is a dict from session identifiers to session dicts.\<close>

type_synonym session_data = "string \<rightharpoonup> json"
type_synonym session_store = "string \<rightharpoonup> session_data"

section \<open>The controller (\<^verbatim>\<open>controller.py\<close>)\<close>

text \<open>
  Every handler takes the configuration, what it meets outside, the session store and
  its arguments, and returns what the caller gets (\<open>Inl\<close> for an exception) together
  with the store it leaves. The store is only read or written between two awaits, so
  one call is one step on the store.
\<close>

definition login ::
  "OIDCSettings \<Rightarrow> env \<Rightarrow> session_store \<Rightarrow> request \<Rightarrow> (exn + response) \<times> session_store" where
  "login config e store req =
     (let params =
            [(''client_id'', CLIENT_ID config),
             (''response_type'', ''code''),
             (''scope'', SCOPE config),
             (''redirect_uri'', REDIRECT_URI config),
             (''state'', str_uuid (uuid4 e))];
          query = join ''&'' (map (\<lambda>(k, v). k @ ''='' @ v) params)
      in (Inr (RedirectResponse (AUTHORIZE_URL config @ ''?'' @ query)), store))"

definition token_request_data :: "OIDCSettings \<Rightarrow> string \<Rightarrow> (string \<times> json) list" where
  "token_request_data config code =
     [(''client_id'', JStr (CLIENT_ID config)),
      (''client_secret'', JStr (CLIENT_SECRET config)),
      (''grant_type'', JStr ''authorization_code''),
      (''code'', JStr code),
      (''redirect_uri'', JStr (REDIRECT_URI config))]"

definition callback ::
  "OIDCSettings \<Rightarrow> env \<Rightarrow> session_store \<Rightarrow> request \<Rightarrow> (exn + response) \<times> session_store" where
  "callback config e store req =
     (case query_params req ''code'' of
        None \<Rightarrow> (Inr (JSONResponse (JObj [(''error'', JStr ''Missing code'')]) 400), store)
      | Some code \<Rightarrow>
          if code = [] then
            (Inr (JSONResponse (JObj [(''error'', JStr ''Missing code'')]) 400), store)
          else
            (case post e (TOKEN_URL config) (token_request_data config code)
                    [(''Accept'', ''application/json'')] of
               Inl x \<Rightarrow> (Inl x, store)
             | Inr token_resp \<Rightarrow>
                 if status_code token_resp \<noteq> 200 then
                   (Inr (JSONResponse (JObj [(''error'', JStr ''Failed to get token'')]) 400),
                    store)
                 else
                   (case body_json token_resp of
                      None \<Rightarrow> (Inl JSONDecodeError, store)
                    | Some tokens \<Rightarrow>
                        (case py_get tokens ''access_token'' of
                           Inl x \<Rightarrow> (Inl x, store)
                         | Inr access_token \<Rightarrow>
                             (case get e (USERINFO_URL config)
                                     [(''Authorization'', ''Bearer '' @ py_str access_token)] of
                                Inl x \<Rightarrow> (Inl x, store)
                              | Inr user_resp \<Rightarrow>
                                  (case body_json user_resp of
                                     None \<Rightarrow> (Inl JSONDecodeError, store)
                                   | Some user_info \<Rightarrow>
                                       (let session_id = str_uuid (uuid4 e);
                                            store' = store(session_id \<mapsto>
                                              [''user'' \<mapsto> user_info,
                                               ''access_token'' \<mapsto> access_token]);
                                            resp = set_cookie (RedirectResponse ''/'')
                                              ''session_id'' session_id None None
                                              (COOKIE_SECURE config) True
                                              (Some (COOKIE_SAMESITE config))
                                        in (Inr resp, store'))))))))"

definition logout ::
  "OIDCSettings \<Rightarrow> env \<Rightarrow> session_store \<Rightarrow> request \<Rightarrow> (exn + response) \<times> session_store" where
  "logout config e store req =
     (let store' =
            (case cookies req ''session_id'' of
               None \<Rightarrow> store
             | Some session_id \<Rightarrow>
                 if session_id \<noteq> [] \<and> store session_id \<noteq> None
                 then store(session_id := None) else store)
      in (Inr (delete_cookie (RedirectResponse ''/login'') ''session_id''), store'))"

definition exchange_request_data :: "OIDCSettings \<Rightarrow> json \<Rightarrow> string \<Rightarrow> (string \<times> json) list" where
  "exchange_request_data config subject_token target_client =
     [(''grant_type'', JStr ''urn:ietf:params:oauth:grant-type:token-exchange''),
      (''client_id'', JStr (CLIENT_ID config)),
      (''client_secret'', JStr (CLIENT_SECRET config)),
      (''subject_token'', subject_token),
      (''subject_token_type'', JStr ''urn:ietf:params:oauth:token-type:access_token''),
      (''audience'', JStr target_client)]"

text \<open>The result of \<open>exchange_token\<close> is the new token, or \<open>JNull\<close> for \<^verbatim>\<open>None\<close>.\<close>

definition exchange_token ::
  "OIDCSettings \<Rightarrow> env \<Rightarrow> session_store \<Rightarrow> string \<Rightarrow> string \<Rightarrow> (exn + json) \<times> session_store" where
  "exchange_token config e store session_id target_client =
     (case store session_id of
        None \<Rightarrow> (Inr JNull, store)
      | Some session \<Rightarrow>
          (let subject_token =
                 (case session ''access_token'' of None \<Rightarrow> JNull | Some v \<Rightarrow> v)
           in if \<not> truthy subject_token then (Inr JNull, store)
              else
                (case post e (TOKEN_URL config)
                        (exchange_request_data config subject_token target_client)
                        [(''Accept'', ''application/json'')] of
                   Inl x \<Rightarrow> (Inl x, store)
                 | Inr exchange_resp \<Rightarrow>
                     if status_code exchange_resp \<noteq> 200 then (Inr JNull, store)
                     else
                       (case body_json exchange_resp of
                          None \<Rightarrow> (Inl JSONDecodeError, store)
                        | Some new_tokens \<Rightarrow>
                            (case py_get new_tokens ''access_token'' of
                               Inl x \<Rightarrow> (Inl x, store)
                             | Inr tok \<Rightarrow> (Inr tok, store))))))"

section \<open>A sequence of callbacks on one store\<close>

fun run_callbacks ::
  "OIDCSettings \<Rightarrow> session_store \<Rightarrow> (env \<times> request) list
     \<Rightarrow> (exn + response) list \<times> session_store" where
  "run_callbacks config store [] = ([], store)"
| "run_callbacks config store ((e, req) # rest) =
     (let (out, store') = callback config e store req;
          (outs, store'') = run_callbacks config store' rest
      in (out # outs, store''))"

text \<open>The value of the \<^verbatim>\<open>session_id\<close> cookie that a handler's result sets, if it sets one.\<close>

definition session_cookie :: "exn + response \<Rightarrow> string option" where
  "session_cookie out =
     (case out of
        Inl x \<Rightarrow> None
      | Inr r \<Rightarrow> map_of (map (\<lambda>c. (key c, val c)) (set_cookies r)) ''session_id'')"

definition issued_ids :: "(env \<times> request) list \<Rightarrow> string list" where
  "issued_ids calls = map (\<lambda>c. str_uuid (uuid4 (fst c))) calls"

section \<open>Concrete configurations, requests and providers\<close>

definition cfg0 :: OIDCSettings where
  "cfg0 =
     \<lparr>CLIENT_ID = ''abc123'', CLIENT_SECRET = ''s3cret'',
      ISSUER_URL = ''https://idp.example'',
      AUTHORIZE_URL = ''https://idp.example/authorize'',
      TOKEN_URL = ''https://idp.example/token'',
      USERINFO_URL = ''https://idp.example/userinfo'',
      REDIRECT_URI = ''http://localhost:8000/oidc/callback'',
      SCOPE = ''openid email profile'',
      COOKIE_SECURE = False, COOKIE_SAMESITE = Lax\<rparr>"

definition uuid_a :: uuid where
  "uuid_a = 0x3f2b8c1e9d4a4c7ba1f06e5d4c3b2a19"

definition uuid_b :: uuid where
  "uuid_b = 0x0c51d7a2e6b84f0393aa5be1f27d4c68"

text \<open>
  A provider that answers every token request with \<open>t\<close> and every userinfo request
  with \<open>u\<close>, in a call where \<^verbatim>\<open>uuid4()\<close> draws \<open>x\<close>.
\<close>

definition provider :: "httpx_response \<Rightarrow> httpx_response \<Rightarrow> uuid \<Rightarrow> env" where
  "provider t u x = \<lparr>post = (\<lambda>url data headers. Inr t), get = (\<lambda>url headers. Inr u), uuid4 = x\<rparr>"

definition json_reply :: "int \<Rightarrow> json \<Rightarrow> httpx_response" where
  "json_reply code body = \<lparr>status_code = code, body_json = Some body\<rparr>"

text \<open>A response whose body is not JSON.\<close>

definition plain_reply :: "int \<Rightarrow> httpx_response" where
  "plain_reply code = \<lparr>status_code = code, body_json = None\<rparr>"

definition tok1_reply :: httpx_response where
  "tok1_reply = json_reply 200 (JObj [(''access_token'', JStr ''tok1'')])"

definition alice_reply :: httpx_response where
  "alice_reply = json_reply 200 (JObj [(''email'', JStr ''a@b.com'')])"

definition bob_reply :: httpx_response where
  "bob_reply = json_reply 200 (JObj [(''email'', JStr ''bob@b.com'')])"

definition req_plain :: request where
  "req_plain = \<lparr>query_params = Map.empty, cookies = Map.empty\<rparr>"

definition req_code :: request where
  "req_code = \<lparr>query_params = [''code'' \<mapsto> ''xyz''], cookies = Map.empty\<rparr>"

definition req_cookie :: "string \<Rightarrow> request" where
  "req_cookie sid = \<lparr>query_params = Map.empty, cookies = [''session_id'' \<mapsto> sid]\<rparr>"

definition alice_session :: session_data where
  "alice_session = [''user'' \<mapsto> JObj [(''email'', JStr ''a@b.com'')], ''access_token'' \<mapsto> JStr ''tok1'']"

definition bob_session :: session_data where
  "bob_session = [''user'' \<mapsto> JObj [(''email'', JStr ''bob@b.com'')], ''access_token'' \<mapsto> JStr ''tok1'']"

text \<open>
  Two environments, as \<open>env_vars\<close>: the six required variables set to the empty string,
  and set to the values of \<open>cfg0\<close>.
\<close>

definition env_vars_empty_values :: "string \<rightharpoonup> string" where
  "env_vars_empty_values = map_of (map (\<lambda>f. (env_name f, [])) required_fields)"

definition env_vars_ok :: "string \<rightharpoonup> string" where
  "env_vars_ok =
     [''oidc_client_id'' \<mapsto> ''abc123'', ''oidc_client_secret'' \<mapsto> ''s3cret'',
      ''oidc_issuer_url'' \<mapsto> ''https://idp.example'',
      ''oidc_authorize_url'' \<mapsto> ''https://idp.example/authorize'',
      ''oidc_token_url'' \<mapsto> ''https://idp.example/token'',
      ''oidc_userinfo_url'' \<mapsto> ''https://idp.example/userinfo'']"

text \<open>The environment of \<open>cfg0\<close> as a shell would set it, in upper case.\<close>

definition environ_upper :: "(string \<times> string) list" where
  "environ_upper =
     [(''OIDC_CLIENT_ID'', ''abc123''), (''OIDC_CLIENT_SECRET'', ''s3cret''),
      (''OIDC_ISSUER_URL'', ''https://idp.example''),
      (''OIDC_AUTHORIZE_URL'', ''https://idp.example/authorize''),
      (''OIDC_TOKEN_URL'', ''https://idp.example/token''),
      (''OIDC_USERINFO_URL'', ''https://idp.example/userinfo'')]"

text \<open>Two logins in a row, with two different draws of \<^verbatim>\<open>uuid4()\<close>.\<close>

definition two_logins :: "(env \<times> request) list" where
  "two_logins =
     [(provider tok1_reply alice_reply uuid_a, req_code),
      (provider tok1_reply bob_reply uuid_b, req_code)]"

section \<open>Responses\<close>

lemma quote_Nil [simp]: "quote [] = []"
  by (simp add: quote_def)

lemma quote_append [simp]: "quote (xs @ ys) = quote xs @ quote ys"
  by (simp add: quote_def)

lemma quote_Cons: "quote (c # cs) = quote_char c @ quote cs"
  by (simp add: quote_def)

lemma quote_safe: "set s \<subseteq> set (always_safe @ redirect_safe) \<Longrightarrow> quote s = s"
  by (induction s) (simp_all add: quote_Cons quote_char_def)

lemma quote_root [simp]: "quote ''/'' = ''/''"
  by (simp add: quote_Cons quote_char_def always_safe_def redirect_safe_def)

lemma quote_login_path [simp]: "quote ''/login'' = ''/login''"
  by (simp add: quote_Cons quote_char_def always_safe_def redirect_safe_def)

lemma str_uuid_not_Nil [simp]: "str_uuid u \<noteq> []"
  by (simp add: str_uuid_def Let_def)

lemma str_uuid_a: "str_uuid uuid_a = ''3f2b8c1e-9d4a-4c7b-a1f0-6e5d4c3b2a19''"
  unfolding uuid_a_def by code_simp

lemma str_uuid_b: "str_uuid uuid_b = ''0c51d7a2-e6b8-4f03-93aa-5be1f27d4c68''"
  unfolding uuid_b_def by code_simp

section \<open>Callback\<close>

text \<open>
  C1, as the code has it. A callback request carries a code, the token endpoint answers
  200 with a JSON object, and the userinfo request made with the returned access token is
  answered with status 200 and a JSON body, the identity claims. Then the controller
  stores exactly one record, holding those claims and that access token, under the
  identifier it has just generated: the store it leaves is the old one updated at that
  identifier. It returns a redirect to \<^verbatim>\<open>/\<close> whose only \<^verbatim>\<open>Set-Cookie\<close> sets \<^verbatim>\<open>session_id\<close> to
  the same identifier, with \<^verbatim>\<open>HttpOnly\<close> on, \<^verbatim>\<open>Secure\<close> equal to \<^verbatim>\<open>COOKIE_SECURE\<close> and
  \<^verbatim>\<open>SameSite\<close> equal to \<^verbatim>\<open>COOKIE_SAMESITE\<close>. (The code does not read the status of the
  userinfo response; what it does on another status is C4.)
\<close>

theorem callback_success:
  assumes "query_params req ''code'' = Some code" and "code \<noteq> []"
    and "post e (TOKEN_URL config) (token_request_data config code)
           [(''Accept'', ''application/json'')] = Inr token_resp"
    and "status_code token_resp = 200"
    and "body_json token_resp = Some (JObj tokens)"
    and "get e (USERINFO_URL config)
           [(''Authorization'', ''Bearer '' @ py_str (dict_get tokens ''access_token''))]
         = Inr user_resp"
    and "status_code user_resp = 200"
    and "body_json user_resp = Some user_info"
  shows "callback config e store req =
     (Inr \<lparr>status = 307, location = Some ''/'', content = None,
           set_cookies =
             [\<lparr>key = ''session_id'', val = str_uuid (uuid4 e), max_age = None,
               expires = None, path = Some ''/'', domain = None,
               secure = COOKIE_SECURE config, httponly = True,
               samesite = Some (COOKIE_SAMESITE config)\<rparr>]\<rparr>,
      store(str_uuid (uuid4 e) \<mapsto>
        [''user'' \<mapsto> user_info, ''access_token'' \<mapsto> dict_get tokens ''access_token'']))"
  using assms
  by (simp add: callback_def RedirectResponse_def set_cookie_def Let_def)

theorem callback_success_witness:
  "callback cfg0 (provider tok1_reply alice_reply uuid_a) Map.empty req_code =
     (Inr \<lparr>status = 307, location = Some ''/'', content = None,
           set_cookies =
             [\<lparr>key = ''session_id'', val = str_uuid uuid_a, max_age = None,
               expires = None, path = Some ''/'', domain = None,
               secure = False, httponly = True, samesite = Some Lax\<rparr>]\<rparr>,
      [str_uuid uuid_a \<mapsto> alice_session])"
  using callback_success [of req_code "''xyz''" "provider tok1_reply alice_reply uuid_a" cfg0
      tok1_reply "[(''access_token'', JStr ''tok1'')]" alice_reply
      "JObj [(''email'', JStr ''a@b.com'')]" Map.empty]
  by (simp add: req_code_def provider_def tok1_reply_def alice_reply_def json_reply_def
      cfg0_def alice_session_def dict_get_def)

text \<open>
  C1, as the claim states it, fails when the userinfo endpoint does not deliver claims:
  the request carries the code \<^verbatim>\<open>xyz\<close>, the token endpoint answers 200 with
  \<^verbatim>\<open>{"access_token": "tok1"}\<close>, the userinfo endpoint answers 401 with a body that is not
  JSON, and \<^verbatim>\<open>user_resp.json()\<close> raises: no record is stored and no redirect is returned.
\<close>

theorem callback_userinfo_not_json_counterexample:
  "query_params req_code ''code'' = Some ''xyz''
   \<and> post (provider tok1_reply (plain_reply 401) uuid_a) (TOKEN_URL cfg0)
        (token_request_data cfg0 ''xyz'') [(''Accept'', ''application/json'')] = Inr tok1_reply
   \<and> status_code tok1_reply = 200
   \<and> callback cfg0 (provider tok1_reply (plain_reply 401) uuid_a) Map.empty req_code
     = (Inl JSONDecodeError, Map.empty)"
  by (simp add: callback_def req_code_def provider_def tok1_reply_def json_reply_def
      plain_reply_def dict_get_def)

text \<open>
  C2. A callback request without a \<^verbatim>\<open>code\<close> parameter (or with an empty one) is answered
  with status 400 and the body \<^verbatim>\<open>{"error": "Missing code"}\<close>. A request with a code, to
  which the token endpoint responds with a status other than 200, is answered with
  status 400 and the body \<^verbatim>\<open>{"error": "Failed to get token"}\<close>. In both cases the
  session store is left as it was: no record is created.
\<close>

theorem callback_failure:
  "((query_params req ''code'' = None \<or> query_params req ''code'' = Some []) \<longrightarrow>
      callback config e store req =
        (Inr \<lparr>status = 400, location = None,
              content = Some (JObj [(''error'', JStr ''Missing code'')]), set_cookies = []\<rparr>,
         store))
   \<and> (query_params req ''code'' = Some code \<and> code \<noteq> []
        \<and> post e (TOKEN_URL config) (token_request_data config code)
              [(''Accept'', ''application/json'')] = Inr token_resp
        \<and> status_code token_resp \<noteq> 200 \<longrightarrow>
      callback config e store req =
        (Inr \<lparr>status = 400, location = None,
              content = Some (JObj [(''error'', JStr ''Failed to get token'')]),
              set_cookies = []\<rparr>,
         store))"
  by (auto simp add: callback_def JSONResponse_def)

theorem callback_failure_witness:
  "callback cfg0 (provider tok1_reply alice_reply uuid_a) [str_uuid uuid_b \<mapsto> bob_session] req_plain =
     (Inr \<lparr>status = 400, location = None,
           content = Some (JObj [(''error'', JStr ''Missing code'')]), set_cookies = []\<rparr>,
      [str_uuid uuid_b \<mapsto> bob_session])
   \<and> callback cfg0 (provider (json_reply 401 (JObj [(''error'', JStr ''invalid_grant'')])) alice_reply uuid_a)
        [str_uuid uuid_b \<mapsto> bob_session] req_code =
     (Inr \<lparr>status = 400, location = None,
           content = Some (JObj [(''error'', JStr ''Failed to get token'')]), set_cookies = []\<rparr>,
      [str_uuid uuid_b \<mapsto> bob_session])"
  using callback_failure [where req = req_plain and config = cfg0
      and e = "provider tok1_reply alice_reply uuid_a"
      and store = "[str_uuid uuid_b \<mapsto> bob_session]"]
    callback_failure [where req = req_code and config = cfg0 and code = "''xyz''"
      and e = "provider (json_reply 401 (JObj [(''error'', JStr ''invalid_grant'')])) alice_reply uuid_a"
      and token_resp = "json_reply 401 (JObj [(''error'', JStr ''invalid_grant'')])"
      and store = "[str_uuid uuid_b \<mapsto> bob_session]"]
  by (simp add: req_plain_def req_code_def provider_def json_reply_def)

text \<open>
  C4. The token endpoint answers 200 with \<^verbatim>\<open>{"access_token": "tok1"}\<close> and the userinfo
  endpoint rejects the token with 401 and the body \<^verbatim>\<open>{"error": "invalid_token"}\<close>. The
  status of the userinfo response is never read: callback stores a session record whose
  \<^verbatim>\<open>user\<close> is the error body and returns the success redirect with a session cookie,
  not a 4xx response.
\<close>

theorem callback_userinfo_rejected:
  "callback cfg0
     (provider tok1_reply (json_reply 401 (JObj [(''error'', JStr ''invalid_token'')])) uuid_a)
     Map.empty req_code =
     (Inr \<lparr>status = 307, location = Some ''/'', content = None,
           set_cookies =
             [\<lparr>key = ''session_id'', val = str_uuid uuid_a, max_age = None,
               expires = None, path = Some ''/'', domain = None,
               secure = False, httponly = True, samesite = Some Lax\<rparr>]\<rparr>,
      [str_uuid uuid_a \<mapsto>
         [''user'' \<mapsto> JObj [(''error'', JStr ''invalid_token'')],
          ''access_token'' \<mapsto> JStr ''tok1'']])"
  by (simp add: callback_def req_code_def provider_def tok1_reply_def json_reply_def cfg0_def
      RedirectResponse_def set_cookie_def Let_def dict_get_def)

text \<open>
  C10, as the code has it. The token endpoint answers 200 with a JSON object that has no
  \<^verbatim>\<open>access_token\<close> member. Then the header of the userinfo request is
  \<^verbatim>\<open>Authorization: Bearer None\<close>; when that request is answered with status 200 and a JSON
  body, callback stores a session record with these claims whose \<^verbatim>\<open>access_token\<close> is
  \<^verbatim>\<open>None\<close> and returns the success redirect with the session cookie. On every later
  store that holds this record under the identifier, \<open>exchange_token\<close> returns \<^verbatim>\<open>None\<close>,
  whatever the provider would answer.
\<close>

theorem callback_without_access_token:
  assumes "query_params req ''code'' = Some code" and "code \<noteq> []"
    and "post e (TOKEN_URL config) (token_request_data config code)
           [(''Accept'', ''application/json'')] = Inr token_resp"
    and "status_code token_resp = 200"
    and "body_json token_resp = Some (JObj tokens)"
    and "map_of tokens ''access_token'' = None"
    and "get e (USERINFO_URL config) [(''Authorization'', ''Bearer None'')] = Inr user_resp"
    and "status_code user_resp = 200"
    and "body_json user_resp = Some user_info"
  shows "''Bearer '' @ py_str (dict_get tokens ''access_token'') = ''Bearer None''
    \<and> callback config e store req =
     (Inr \<lparr>status = 307, location = Some ''/'', content = None,
           set_cookies =
             [\<lparr>key = ''session_id'', val = str_uuid (uuid4 e), max_age = None,
               expires = None, path = Some ''/'', domain = None,
               secure = COOKIE_SECURE config, httponly = True,
               samesite = Some (COOKIE_SAMESITE config)\<rparr>]\<rparr>,
      store(str_uuid (uuid4 e) \<mapsto> [''user'' \<mapsto> user_info, ''access_token'' \<mapsto> JNull]))
    \<and> (later (str_uuid (uuid4 e)) = Some [''user'' \<mapsto> user_info, ''access_token'' \<mapsto> JNull] \<longrightarrow>
         exchange_token config e' later (str_uuid (uuid4 e)) target_client = (Inr JNull, later))"
  using assms
  by (simp add: callback_def RedirectResponse_def set_cookie_def Let_def dict_get_def
      exchange_token_def)

theorem callback_without_access_token_witness:
  "callback cfg0 (provider (json_reply 200 (JObj [(''token_type'', JStr ''bearer'')])) alice_reply uuid_a)
     Map.empty req_code =
     (Inr \<lparr>status = 307, location = Some ''/'', content = None,
           set_cookies =
             [\<lparr>key = ''session_id'', val = str_uuid uuid_a, max_age = None,
               expires = None, path = Some ''/'', domain = None,
               secure = False, httponly = True, samesite = Some Lax\<rparr>]\<rparr>,
      [str_uuid uuid_a \<mapsto> [''user'' \<mapsto> JObj [(''email'', JStr ''a@b.com'')], ''access_token'' \<mapsto> JNull]])
   \<and> exchange_token cfg0 (provider tok1_reply alice_reply uuid_b)
        [str_uuid uuid_a \<mapsto> [''user'' \<mapsto> JObj [(''email'', JStr ''a@b.com'')], ''access_token'' \<mapsto> JNull]]
        (str_uuid uuid_a) ''svc-a'' =
      (Inr JNull,
       [str_uuid uuid_a \<mapsto> [''user'' \<mapsto> JObj [(''email'', JStr ''a@b.com'')], ''access_token'' \<mapsto> JNull]])"
  using callback_without_access_token [where req = req_code and code = "''xyz''" and config = cfg0
      and e = "provider (json_reply 200 (JObj [(''token_type'', JStr ''bearer'')])) alice_reply uuid_a"
      and token_resp = "json_reply 200 (JObj [(''token_type'', JStr ''bearer'')])"
      and tokens = "[(''token_type'', JStr ''bearer'')]"
      and user_resp = alice_reply and user_info = "JObj [(''email'', JStr ''a@b.com'')]"
      and store = Map.empty
      and later = "[str_uuid uuid_a \<mapsto> [''user'' \<mapsto> JObj [(''email'', JStr ''a@b.com'')], ''access_token'' \<mapsto> JNull]]"
      and e' = "provider tok1_reply alice_reply uuid_b" and target_client = "''svc-a''"]
  by (simp add: req_code_def provider_def json_reply_def alice_reply_def cfg0_def)

text \<open>
  C10, as the claim states it, fails when the provider rejects the bearer token
  \<^verbatim>\<open>None\<close>: the token endpoint answers 200 with \<^verbatim>\<open>{"token_type": "bearer"}\<close>, the userinfo
  endpoint answers 401 with a body that is not JSON, and \<^verbatim>\<open>user_resp.json()\<close> raises: no
  record is created and no redirect is returned.
\<close>

theorem callback_bearer_none_rejected_counterexample:
  "query_params req_code ''code'' = Some ''xyz''
   \<and> post (provider (json_reply 200 (JObj [(''token_type'', JStr ''bearer'')])) (plain_reply 401) uuid_a)
        (TOKEN_URL cfg0) (token_request_data cfg0 ''xyz'') [(''Accept'', ''application/json'')]
     = Inr (json_reply 200 (JObj [(''token_type'', JStr ''bearer'')]))
   \<and> get (provider (json_reply 200 (JObj [(''token_type'', JStr ''bearer'')])) (plain_reply 401) uuid_a)
        (USERINFO_URL cfg0) [(''Authorization'', ''Bearer None'')]
     = Inr (plain_reply 401)
   \<and> callback cfg0
        (provider (json_reply 200 (JObj [(''token_type'', JStr ''bearer'')])) (plain_reply 401) uuid_a)
        Map.empty req_code
     = (Inl JSONDecodeError, Map.empty)"
  by (simp add: callback_def req_code_def provider_def json_reply_def plain_reply_def
      dict_get_def)

section \<open>Login\<close>

text \<open>The printed form of a UUID has only characters that \<open>quote\<close> leaves alone.\<close>

lemma hex_lower_safe: "hex_lower n \<in> set always_safe"
proof -
  have "n mod 16 < length ''0123456789abcdef''" by simp
  then have "hex_lower n \<in> set ''0123456789abcdef''"
    unfolding hex_lower_def by (rule nth_mem)
  then show ?thesis
    by (auto simp add: always_safe_def)
qed

lemma set_hex32: "set (hex32 u) \<subseteq> set always_safe"
  by (auto simp add: hex32_def hex_lower_safe)

lemma set_str_uuid: "set (str_uuid u) \<subseteq> set always_safe"
proof -
  have dash: "CHR ''-'' \<in> set always_safe" by (simp add: always_safe_def)
  have "set (take n (drop m (hex32 u))) \<subseteq> set always_safe" for n m
    using set_hex32 [of u] set_take_subset [of n "drop m (hex32 u)"] set_drop_subset [of m "hex32 u"]
    by blast
  moreover have "set (take n (hex32 u)) \<subseteq> set always_safe" for n
    using set_hex32 [of u] set_take_subset [of n "hex32 u"] by blast
  moreover have "set (drop m (hex32 u)) \<subseteq> set always_safe" for m
    using set_hex32 [of u] set_drop_subset [of m "hex32 u"] by blast
  ultimately show ?thesis
    using dash by (simp add: str_uuid_def Let_def)
qed

lemma quote_str_uuid [simp]: "quote (str_uuid u) = str_uuid u"
  using set_str_uuid [of u] by (intro quote_safe) auto




section \<open>Token exchange\<close>

text \<open>
  C3, as the code has it. \<open>exchange_token\<close> returns \<^verbatim>\<open>None\<close>, and raises nothing, whenever
  the session identifier is unknown to the store, or the stored session has no access
  token (none, or one that is not truthy), or the token endpoint responds with a status
  other than 200. When the endpoint responds with 200 and a JSON object, the result is
  that object's \<^verbatim>\<open>access_token\<close>, which is \<^verbatim>\<open>None\<close> again when the object has no such
  member. A result other than \<^verbatim>\<open>None\<close> is returned only when the session is known, holds
  a truthy access token and the endpoint has responded with 200. The store is left as
  it was.
\<close>

theorem exchange_token_result:
  "(store session_id = None \<longrightarrow>
      exchange_token config e store session_id target_client = (Inr JNull, store))
   \<and> (store session_id = Some session
        \<and> (session ''access_token'' = None
             \<or> (\<exists>v. session ''access_token'' = Some v \<and> \<not> truthy v)) \<longrightarrow>
      exchange_token config e store session_id target_client = (Inr JNull, store))
   \<and> (store session_id = Some session \<and> session ''access_token'' = Some subject_token
        \<and> truthy subject_token
        \<and> post e (TOKEN_URL config)
              (exchange_request_data config subject_token target_client)
              [(''Accept'', ''application/json'')] = Inr exchange_resp
        \<and> status_code exchange_resp \<noteq> 200 \<longrightarrow>
      exchange_token config e store session_id target_client = (Inr JNull, store))
   \<and> (store session_id = Some session \<and> session ''access_token'' = Some subject_token
        \<and> truthy subject_token
        \<and> post e (TOKEN_URL config)
              (exchange_request_data config subject_token target_client)
              [(''Accept'', ''application/json'')] = Inr exchange_resp
        \<and> status_code exchange_resp = 200
        \<and> body_json exchange_resp = Some (JObj new_tokens) \<longrightarrow>
      exchange_token config e store session_id target_client =
        (Inr (dict_get new_tokens ''access_token''), store))
   \<and> (fst (exchange_token config e store session_id target_client) = Inr token
        \<and> token \<noteq> JNull \<longrightarrow>
      (\<exists>session subject_token exchange_resp.
         store session_id = Some session \<and> session ''access_token'' = Some subject_token
         \<and> truthy subject_token
         \<and> post e (TOKEN_URL config)
               (exchange_request_data config subject_token target_client)
               [(''Accept'', ''application/json'')] = Inr exchange_resp
         \<and> status_code exchange_resp = 200))"
proof (intro conjI impI)
  show "exchange_token config e store session_id target_client = (Inr JNull, store)"
    if "store session_id = None"
    using that by (simp add: exchange_token_def)
  show "exchange_token config e store session_id target_client = (Inr JNull, store)"
    if "store session_id = Some session
        \<and> (session ''access_token'' = None
             \<or> (\<exists>v. session ''access_token'' = Some v \<and> \<not> truthy v))"
    using that by (auto simp add: exchange_token_def)
  show "exchange_token config e store session_id target_client = (Inr JNull, store)"
    if "store session_id = Some session \<and> session ''access_token'' = Some subject_token
        \<and> truthy subject_token
        \<and> post e (TOKEN_URL config)
              (exchange_request_data config subject_token target_client)
              [(''Accept'', ''application/json'')] = Inr exchange_resp
        \<and> status_code exchange_resp \<noteq> 200"
    using that by (simp add: exchange_token_def)
  show "exchange_token config e store session_id target_client =
        (Inr (dict_get new_tokens ''access_token''), store)"
    if "store session_id = Some session \<and> session ''access_token'' = Some subject_token
        \<and> truthy subject_token
        \<and> post e (TOKEN_URL config)
              (exchange_request_data config subject_token target_client)
              [(''Accept'', ''application/json'')] = Inr exchange_resp
        \<and> status_code exchange_resp = 200
        \<and> body_json exchange_resp = Some (JObj new_tokens)"
    using that by (simp add: exchange_token_def)
  show "\<exists>session subject_token exchange_resp.
         store session_id = Some session \<and> session ''access_token'' = Some subject_token
         \<and> truthy subject_token
         \<and> post e (TOKEN_URL config)
               (exchange_request_data config subject_token target_client)
               [(''Accept'', ''application/json'')] = Inr exchange_resp
         \<and> status_code exchange_resp = 200"
    if "fst (exchange_token config e store session_id target_client) = Inr token
        \<and> token \<noteq> JNull"
    using that
    by (auto simp add: exchange_token_def Let_def
        split: option.splits sum.splits if_splits)
qed

theorem exchange_token_result_witness:
  "exchange_token cfg0 (provider tok1_reply alice_reply uuid_b) Map.empty ''unknown-id'' ''svc-a''
     = (Inr JNull, Map.empty)
   \<and> exchange_token cfg0 (provider tok1_reply alice_reply uuid_b)
        [str_uuid uuid_a \<mapsto> [''user'' \<mapsto> JObj [(''email'', JStr ''a@b.com'')]]]
        (str_uuid uuid_a) ''svc-a''
     = (Inr JNull, [str_uuid uuid_a \<mapsto> [''user'' \<mapsto> JObj [(''email'', JStr ''a@b.com'')]]])
   \<and> exchange_token cfg0 (provider (json_reply 403 (JObj [(''error'', JStr ''access_denied'')]))
          alice_reply uuid_b)
        [str_uuid uuid_a \<mapsto> alice_session] (str_uuid uuid_a) ''svc-a''
     = (Inr JNull, [str_uuid uuid_a \<mapsto> alice_session])
   \<and> exchange_token cfg0 (provider (json_reply 200 (JObj [(''access_token'', JStr ''tok2'')]))
          alice_reply uuid_b)
        [str_uuid uuid_a \<mapsto> alice_session] (str_uuid uuid_a) ''svc-a''
     = (Inr (JStr ''tok2''), [str_uuid uuid_a \<mapsto> alice_session])
   \<and> (\<exists>session subject_token exchange_resp.
         [str_uuid uuid_a \<mapsto> alice_session] (str_uuid uuid_a) = Some session
         \<and> session ''access_token'' = Some subject_token \<and> truthy subject_token
         \<and> post (provider (json_reply 200 (JObj [(''access_token'', JStr ''tok2'')]))
                  alice_reply uuid_b) (TOKEN_URL cfg0)
               (exchange_request_data cfg0 subject_token ''svc-a'')
               [(''Accept'', ''application/json'')] = Inr exchange_resp
         \<and> status_code exchange_resp = 200)"
proof -
  let ?p = "provider tok1_reply alice_reply uuid_b"
  let ?p403 = "provider (json_reply 403 (JObj [(''error'', JStr ''access_denied'')])) alice_reply uuid_b"
  let ?p200 = "provider (json_reply 200 (JObj [(''access_token'', JStr ''tok2'')])) alice_reply uuid_b"
  let ?anon = "[''user'' \<mapsto> JObj [(''email'', JStr ''a@b.com'')]] :: session_data"
  have unknown: "(Map.empty :: session_store) ''unknown-id'' = None"
    by simp
  have no_token: "[str_uuid uuid_a \<mapsto> ?anon] (str_uuid uuid_a) = Some ?anon
      \<and> (?anon ''access_token'' = None \<or> (\<exists>v. ?anon ''access_token'' = Some v \<and> \<not> truthy v))"
    by simp
  have denied: "[str_uuid uuid_a \<mapsto> alice_session] (str_uuid uuid_a) = Some alice_session
      \<and> alice_session ''access_token'' = Some (JStr ''tok1'') \<and> truthy (JStr ''tok1'')
      \<and> post ?p403 (TOKEN_URL cfg0) (exchange_request_data cfg0 (JStr ''tok1'') ''svc-a'')
           [(''Accept'', ''application/json'')]
         = Inr (json_reply 403 (JObj [(''error'', JStr ''access_denied'')]))
      \<and> status_code (json_reply 403 (JObj [(''error'', JStr ''access_denied'')])) \<noteq> 200"
    by (simp add: alice_session_def provider_def json_reply_def)
  have granted: "[str_uuid uuid_a \<mapsto> alice_session] (str_uuid uuid_a) = Some alice_session
      \<and> alice_session ''access_token'' = Some (JStr ''tok1'') \<and> truthy (JStr ''tok1'')
      \<and> post ?p200 (TOKEN_URL cfg0) (exchange_request_data cfg0 (JStr ''tok1'') ''svc-a'')
           [(''Accept'', ''application/json'')]
         = Inr (json_reply 200 (JObj [(''access_token'', JStr ''tok2'')]))
      \<and> status_code (json_reply 200 (JObj [(''access_token'', JStr ''tok2'')])) = 200
      \<and> body_json (json_reply 200 (JObj [(''access_token'', JStr ''tok2'')]))
         = Some (JObj [(''access_token'', JStr ''tok2'')])"
    by (simp add: alice_session_def provider_def json_reply_def)
  have c1: "exchange_token cfg0 ?p Map.empty ''unknown-id'' ''svc-a'' = (Inr JNull, Map.empty)"
    using exchange_token_result [where store = Map.empty and session_id = "''unknown-id''"
        and config = cfg0 and e = ?p and target_client = "''svc-a''"] unknown
    by blast
  have c2: "exchange_token cfg0 ?p [str_uuid uuid_a \<mapsto> ?anon] (str_uuid uuid_a) ''svc-a''
      = (Inr JNull, [str_uuid uuid_a \<mapsto> ?anon])"
    using exchange_token_result [where store = "[str_uuid uuid_a \<mapsto> ?anon]"
        and session_id = "str_uuid uuid_a" and session = ?anon
        and config = cfg0 and e = ?p and target_client = "''svc-a''"] no_token
    by blast
  have c3: "exchange_token cfg0 ?p403 [str_uuid uuid_a \<mapsto> alice_session] (str_uuid uuid_a) ''svc-a''
      = (Inr JNull, [str_uuid uuid_a \<mapsto> alice_session])"
    using exchange_token_result [where store = "[str_uuid uuid_a \<mapsto> alice_session]"
        and session_id = "str_uuid uuid_a" and session = alice_session
        and subject_token = "JStr ''tok1''"
        and exchange_resp = "json_reply 403 (JObj [(''error'', JStr ''access_denied'')])"
        and config = cfg0 and e = ?p403 and target_client = "''svc-a''"] denied
    by blast
  have c4: "exchange_token cfg0 ?p200 [str_uuid uuid_a \<mapsto> alice_session] (str_uuid uuid_a) ''svc-a''
      = (Inr (JStr ''tok2''), [str_uuid uuid_a \<mapsto> alice_session])"
    using exchange_token_result [where store = "[str_uuid uuid_a \<mapsto> alice_session]"
        and session_id = "str_uuid uuid_a" and session = alice_session
        and subject_token = "JStr ''tok1''"
        and exchange_resp = "json_reply 200 (JObj [(''access_token'', JStr ''tok2'')])"
        and new_tokens = "[(''access_token'', JStr ''tok2'')]"
        and config = cfg0 and e = ?p200 and target_client = "''svc-a''"] granted
    by (simp add: dict_get_def)
  have "fst (exchange_token cfg0 ?p200 [str_uuid uuid_a \<mapsto> alice_session] (str_uuid uuid_a)
      ''svc-a'') = Inr (JStr ''tok2'') \<and> JStr ''tok2'' \<noteq> JNull"
    using c4 by simp
  then have c5: "\<exists>session subject_token exchange_resp.
         [str_uuid uuid_a \<mapsto> alice_session] (str_uuid uuid_a) = Some session
         \<and> session ''access_token'' = Some subject_token \<and> truthy subject_token
         \<and> post ?p200 (TOKEN_URL cfg0) (exchange_request_data cfg0 subject_token ''svc-a'')
               [(''Accept'', ''application/json'')] = Inr exchange_resp
         \<and> status_code exchange_resp = 200"
    using exchange_token_result [where store = "[str_uuid uuid_a \<mapsto> alice_session]"
        and session_id = "str_uuid uuid_a" and token = "JStr ''tok2''"
        and config = cfg0 and e = ?p200 and target_client = "''svc-a''"]
    by blast
  show ?thesis
    using c1 c2 c3 c4 c5 by blast
qed

text \<open>
  C3, as the claim states it, fails in the direction "\<^verbatim>\<open>None\<close> only when": the session is
  known and holds the access token \<^verbatim>\<open>tok1\<close>, the token endpoint responds with 200 and the
  body \<^verbatim>\<open>{}\<close>, and the result is \<^verbatim>\<open>None\<close>.
\<close>

theorem exchange_token_none_on_200_counterexample:
  "exchange_token cfg0 (provider (json_reply 200 (JObj [])) alice_reply uuid_b)
     [str_uuid uuid_a \<mapsto> alice_session] (str_uuid uuid_a) ''svc-a''
     = (Inr JNull, [str_uuid uuid_a \<mapsto> alice_session])
   \<and> [str_uuid uuid_a \<mapsto> alice_session] (str_uuid uuid_a) = Some alice_session
   \<and> alice_session ''access_token'' = Some (JStr ''tok1'')
   \<and> truthy (JStr ''tok1'')
   \<and> post (provider (json_reply 200 (JObj [])) alice_reply uuid_b) (TOKEN_URL cfg0)
        (exchange_request_data cfg0 (JStr ''tok1'') ''svc-a'')
        [(''Accept'', ''application/json'')] = Inr (json_reply 200 (JObj []))
   \<and> status_code (json_reply 200 (JObj [])) = 200"
  by (simp add: exchange_token_def alice_session_def provider_def json_reply_def dict_get_def)

section \<open>The store under the handlers\<close>

lemma Nil_not_str_uuid [simp]: "[] \<noteq> str_uuid u"
  using str_uuid_not_Nil [of u] by (simp del: str_uuid_not_Nil)

lemma run_callbacks_Cons:
  "run_callbacks config store ((e, req) # rest) =
     (fst (callback config e store req)
        # fst (run_callbacks config (snd (callback config e store req)) rest),
      snd (run_callbacks config (snd (callback config e store req)) rest))"
  by (simp add: split_beta)

lemma login_store: "snd (login config e store req) = store"
  by (simp add: login_def Let_def)

lemma exchange_token_store: "snd (exchange_token config e store session_id target_client) = store"
  by (simp add: exchange_token_def Let_def split: option.split sum.split)

lemma callback_store:
  "snd (callback config e store req) = store
   \<or> (\<exists>session. snd (callback config e store req) = store(str_uuid (uuid4 e) \<mapsto> session))"
  by (auto simp add: callback_def Let_def split: option.split sum.split)

lemma logout_store:
  "snd (logout config e store req) =
     (case cookies req ''session_id'' of
        None \<Rightarrow> store
      | Some sid \<Rightarrow> if sid \<noteq> [] then store(sid := None) else store)"
  by (auto simp add: logout_def Let_def split: option.split)

text \<open>No handler ever puts a record under the empty string.\<close>

lemma login_no_empty_id:
  "store [] = None \<Longrightarrow> snd (login config e store req) [] = None"
  by (simp add: login_store)

lemma exchange_token_no_empty_id:
  "store [] = None \<Longrightarrow> snd (exchange_token config e store session_id target_client) [] = None"
  by (simp add: exchange_token_store)

lemma callback_no_empty_id:
  "store [] = None \<Longrightarrow> snd (callback config e store req) [] = None"
  using callback_store [of config e store req] by auto

lemma logout_no_empty_id:
  "store [] = None \<Longrightarrow> snd (logout config e store req) [] = None"
  by (simp add: logout_store split: option.split)

lemma run_callbacks_no_empty_id:
  "store [] = None \<Longrightarrow> snd (run_callbacks config store calls) [] = None"
proof (induction calls arbitrary: store)
  case Nil
  then show ?case by simp
next
  case (Cons c calls)
  obtain e req where c: "c = (e, req)" by (cases c)
  have "snd (callback config e store req) [] = None"
    using Cons.prems by (rule callback_no_empty_id)
  then have "snd (run_callbacks config (snd (callback config e store req)) calls) [] = None"
    by (rule Cons.IH)
  then show ?case
    by (simp only: c run_callbacks_Cons snd_conv)
qed

section \<open>Logout\<close>

text \<open>
  C5, as the code has it. Every logout request is answered, never with an exception, by a
  redirect to \<^verbatim>\<open>/login\<close> that clears the \<^verbatim>\<open>session_id\<close> cookie (an empty value with
  \<^verbatim>\<open>Max-Age=0\<close> and \<^verbatim>\<open>expires=0\<close>). If the session cookie is present, with a value that is not
  empty, and names a record of the store, that record is deleted and nothing else
  changes. If the cookie is absent, or names no record, the store is left as it was. A
  second logout with the same request changes nothing more.
\<close>

theorem logout_result:
  "fst (logout config e store req) =
     Inr \<lparr>status = 307, location = Some ''/login'', content = None,
          set_cookies =
            [\<lparr>key = ''session_id'', val = [], max_age = Some 0, expires = Some 0,
              path = Some ''/'', domain = None, secure = False, httponly = False,
              samesite = Some Lax\<rparr>]\<rparr>
   \<and> (cookies req ''session_id'' = Some sid \<and> sid \<noteq> [] \<and> store sid \<noteq> None \<longrightarrow>
        snd (logout config e store req) = store(sid := None))
   \<and> (cookies req ''session_id'' = None
        \<or> (cookies req ''session_id'' = Some sid \<and> store sid = None) \<longrightarrow>
        snd (logout config e store req) = store)
   \<and> snd (logout config e' (snd (logout config e store req)) req)
       = snd (logout config e store req)"
proof (intro conjI impI)
  show "fst (logout config e store req) =
     Inr \<lparr>status = 307, location = Some ''/login'', content = None,
          set_cookies =
            [\<lparr>key = ''session_id'', val = [], max_age = Some 0, expires = Some 0,
              path = Some ''/'', domain = None, secure = False, httponly = False,
              samesite = Some Lax\<rparr>]\<rparr>"
    by (simp add: logout_def Let_def delete_cookie_def set_cookie_def RedirectResponse_def)
  show "snd (logout config e store req) = store(sid := None)"
    if "cookies req ''session_id'' = Some sid \<and> sid \<noteq> [] \<and> store sid \<noteq> None"
    using that by (auto simp add: logout_store)
  show "snd (logout config e store req) = store"
    if "cookies req ''session_id'' = None
        \<or> (cookies req ''session_id'' = Some sid \<and> store sid = None)"
    using that by (auto simp add: logout_store)
  show "snd (logout config e' (snd (logout config e store req)) req)
       = snd (logout config e store req)"
    by (simp add: logout_store split: option.split)
qed

theorem logout_result_witness:
  "snd (logout cfg0 (provider tok1_reply alice_reply uuid_b)
          [str_uuid uuid_a \<mapsto> alice_session, str_uuid uuid_b \<mapsto> bob_session]
          (req_cookie (str_uuid uuid_a)))
     = [str_uuid uuid_a \<mapsto> alice_session, str_uuid uuid_b \<mapsto> bob_session](str_uuid uuid_a := None)
   \<and> snd (logout cfg0 (provider tok1_reply alice_reply uuid_b)
          [str_uuid uuid_b \<mapsto> bob_session] req_plain)
     = [str_uuid uuid_b \<mapsto> bob_session]
   \<and> snd (logout cfg0 (provider tok1_reply alice_reply uuid_b)
          Map.empty (req_cookie (str_uuid uuid_a)))
     = Map.empty"
proof -
  let ?p = "provider tok1_reply alice_reply uuid_b"
  let ?both = "[str_uuid uuid_a \<mapsto> alice_session, str_uuid uuid_b \<mapsto> bob_session]"
  have ne: "str_uuid uuid_a \<noteq> str_uuid uuid_b"
    by (simp add: str_uuid_a str_uuid_b)
  have h1: "cookies (req_cookie (str_uuid uuid_a)) ''session_id'' = Some (str_uuid uuid_a)
      \<and> str_uuid uuid_a \<noteq> [] \<and> ?both (str_uuid uuid_a) \<noteq> None"
    using ne by (simp add: req_cookie_def)
  have h2: "cookies req_plain ''session_id'' = None
      \<or> (cookies req_plain ''session_id'' = Some sid \<and> [str_uuid uuid_b \<mapsto> bob_session] sid = None)"
    for sid
    by (simp add: req_plain_def)
  have h3: "cookies (req_cookie (str_uuid uuid_a)) ''session_id'' = None
      \<or> (cookies (req_cookie (str_uuid uuid_a)) ''session_id'' = Some (str_uuid uuid_a)
          \<and> (Map.empty :: session_store) (str_uuid uuid_a) = None)"
    by (simp add: req_cookie_def)
  show ?thesis
    using logout_result [where config = cfg0 and e = ?p and store = ?both
        and req = "req_cookie (str_uuid uuid_a)" and sid = "str_uuid uuid_a"] h1
      logout_result [where config = cfg0 and e = ?p and store = "[str_uuid uuid_b \<mapsto> bob_session]"
        and req = req_plain] h2
      logout_result [where config = cfg0 and e = ?p and store = Map.empty
        and req = "req_cookie (str_uuid uuid_a)" and sid = "str_uuid uuid_a"] h3
    by blast
qed

text \<open>
  C5, as the claim states it, fails for a cookie with an empty value: the handler tests
  the cookie for truth before it looks it up (\<^verbatim>\<open>if session_id and ...\<close>), so that with the
  cookie \<^verbatim>\<open>session_id=\<close> and a store that holds a record under the empty string, the
  cookie is present and names that record, and the record is still there after logout.
  (The handlers themselves never put a record under the empty string:
  \<open>login_no_empty_id\<close>, \<open>callback_no_empty_id\<close>, \<open>logout_no_empty_id\<close>,
  \<open>exchange_token_no_empty_id\<close>; the store is handed to the controller from outside.)
\<close>

theorem logout_empty_cookie_counterexample:
  "cookies (req_cookie []) ''session_id'' = Some []
   \<and> [[] \<mapsto> alice_session] [] = Some alice_session
   \<and> snd (logout cfg0 (provider tok1_reply alice_reply uuid_a) [[] \<mapsto> alice_session]
          (req_cookie [])) []
     = Some alice_session"
  by (simp add: logout_def req_cookie_def)

section \<open>Who changes the store\<close>

text \<open>
  C7. \<open>login\<close> and \<open>exchange_token\<close> leave the session store as it was. \<open>logout\<close> leaves
  every record that the request's session cookie does not name as it was, and at every
  identifier its store has either no record or the record that was there: it creates
  nothing. \<open>callback\<close> leaves every record other than the one under the identifier it
  generates as it was and removes no identifier from the store: it deletes nothing.
\<close>

theorem store_frame:
  "snd (login config e store req) = store
   \<and> snd (exchange_token config e store session_id target_client) = store
   \<and> (cookies req ''session_id'' \<noteq> Some k \<longrightarrow> snd (logout config e store req) k = store k)
   \<and> (snd (logout config e store req) k = None \<or> snd (logout config e store req) k = store k)
   \<and> (k \<noteq> str_uuid (uuid4 e) \<longrightarrow> snd (callback config e store req) k = store k)
   \<and> (store k \<noteq> None \<longrightarrow> snd (callback config e store req) k \<noteq> None)"
proof (intro conjI impI)
  show "snd (login config e store req) = store"
    by (rule login_store)
  show "snd (exchange_token config e store session_id target_client) = store"
    by (rule exchange_token_store)
  show "snd (logout config e store req) k = store k" if "cookies req ''session_id'' \<noteq> Some k"
    using that by (auto simp add: logout_store split: option.split)
  show "snd (logout config e store req) k = None \<or> snd (logout config e store req) k = store k"
    by (auto simp add: logout_store split: option.split)
  show "snd (callback config e store req) k = store k" if "k \<noteq> str_uuid (uuid4 e)"
    using that callback_store [of config e store req] by auto
  show "snd (callback config e store req) k \<noteq> None" if "store k \<noteq> None"
    using that callback_store [of config e store req] by auto
qed

theorem store_frame_witness:
  "snd (logout cfg0 (provider tok1_reply alice_reply uuid_b)
          [str_uuid uuid_a \<mapsto> alice_session, str_uuid uuid_b \<mapsto> bob_session]
          (req_cookie (str_uuid uuid_a))) (str_uuid uuid_b)
     = Some bob_session
   \<and> snd (callback cfg0 (provider tok1_reply alice_reply uuid_a)
          [str_uuid uuid_b \<mapsto> bob_session] req_code) (str_uuid uuid_b)
     = Some bob_session
   \<and> snd (callback cfg0 (provider tok1_reply alice_reply uuid_a)
          [str_uuid uuid_b \<mapsto> bob_session] req_code) (str_uuid uuid_b)
     \<noteq> None"
proof -
  let ?p = "provider tok1_reply alice_reply uuid_b"
  let ?pa = "provider tok1_reply alice_reply uuid_a"
  let ?both = "[str_uuid uuid_a \<mapsto> alice_session, str_uuid uuid_b \<mapsto> bob_session]"
  let ?bob = "[str_uuid uuid_b \<mapsto> bob_session]"
  have ne: "str_uuid uuid_b \<noteq> str_uuid uuid_a"
    by (simp add: str_uuid_a str_uuid_b)
  have h1: "cookies (req_cookie (str_uuid uuid_a)) ''session_id'' \<noteq> Some (str_uuid uuid_b)"
    using ne by (simp add: req_cookie_def)
  have h2: "str_uuid uuid_b \<noteq> str_uuid (uuid4 ?pa)"
    using ne by (simp add: provider_def)
  have h3: "?bob (str_uuid uuid_b) \<noteq> None"
    by simp
  have "snd (logout cfg0 ?p ?both (req_cookie (str_uuid uuid_a))) (str_uuid uuid_b)
      = ?both (str_uuid uuid_b)"
    using store_frame [where config = cfg0 and e = ?p and store = ?both
        and req = "req_cookie (str_uuid uuid_a)" and k = "str_uuid uuid_b"] h1
    by blast
  moreover have "snd (callback cfg0 ?pa ?bob req_code) (str_uuid uuid_b) = ?bob (str_uuid uuid_b)"
    using store_frame [where config = cfg0 and e = ?pa and store = ?bob
        and req = req_code and k = "str_uuid uuid_b"] h2
    by blast
  moreover have "snd (callback cfg0 ?pa ?bob req_code) (str_uuid uuid_b) \<noteq> None"
    using store_frame [where config = cfg0 and e = ?pa and store = ?bob
        and req = req_code and k = "str_uuid uuid_b"] h3
    by blast
  ultimately show ?thesis
    by simp
qed

section \<open>Constructing the configuration\<close>

lemma required_present:
  "(\<forall>f \<in> set required_fields. env_vars (env_name f) \<noteq> None) \<longleftrightarrow>
     filter (\<lambda>f. env_vars (env_name f) = None) required_fields = []"
  by (simp add: filter_empty_conv)

lemma field_errors_Nil:
  "field_errors env_vars = [] \<longleftrightarrow>
     (\<forall>f \<in> set required_fields. env_vars (env_name f) \<noteq> None)
     \<and> (\<forall>s. env_vars (env_name ''COOKIE_SECURE'') = Some s \<longrightarrow> parse_bool s \<noteq> None)
     \<and> (\<forall>s. env_vars (env_name ''COOKIE_SAMESITE'') = Some s \<longrightarrow> parse_samesite s \<noteq> None)"
  unfolding required_present field_errors_def
  by (cases "env_vars (env_name ''COOKIE_SECURE'')"; cases "env_vars (env_name ''COOKIE_SAMESITE'')")
    simp_all

lemma parse_samesite_None:
  "parse_samesite s = None \<longleftrightarrow> s \<noteq> ''lax'' \<and> s \<noteq> ''strict'' \<and> s \<noteq> ''none''"
  by (simp add: parse_samesite_def)

lemma missing_in_errors:
  assumes "f \<in> set required_fields" and "env_vars (env_name f) = None"
  shows "(f, missing) \<in> set (field_errors env_vars)"
proof -
  have "f \<in> set (filter (\<lambda>f. env_vars (env_name f) = None) required_fields)"
    using assms by simp
  then have "(f, missing)
      \<in> set (map (\<lambda>f. (f, missing)) (filter (\<lambda>f. env_vars (env_name f) = None) required_fields))"
    unfolding set_map by (rule imageI)
  then show ?thesis
    unfolding field_errors_def by simp
qed

lemma literal_in_errors:
  assumes "env_vars (env_name ''COOKIE_SAMESITE'') = Some s" and "parse_samesite s = None"
  shows "(''COOKIE_SAMESITE'', literal_error) \<in> set (field_errors env_vars)"
  unfolding field_errors_def using assms by simp

lemma init_fails: "x \<in> set (field_errors env_vars) \<Longrightarrow>
    \<exists>errs. OIDCSettings_init env_vars = Inl errs \<and> x \<in> set errs"
  by (cases "field_errors env_vars") (simp_all add: OIDCSettings_init_def)

lemma init_succeeds_iff:
  "(\<exists>config. OIDCSettings_init env_vars = Inr config) \<longleftrightarrow> field_errors env_vars = []"
  by (simp add: OIDCSettings_init_def)

lemma env_name_simps:
  "env_name ''CLIENT_ID'' = ''oidc_client_id''"
  "env_name ''CLIENT_SECRET'' = ''oidc_client_secret''"
  "env_name ''ISSUER_URL'' = ''oidc_issuer_url''"
  "env_name ''AUTHORIZE_URL'' = ''oidc_authorize_url''"
  "env_name ''TOKEN_URL'' = ''oidc_token_url''"
  "env_name ''USERINFO_URL'' = ''oidc_userinfo_url''"
  "env_name ''REDIRECT_URI'' = ''oidc_redirect_uri''"
  "env_name ''SCOPE'' = ''oidc_scope''"
  "env_name ''COOKIE_SECURE'' = ''oidc_cookie_secure''"
  "env_name ''COOKIE_SAMESITE'' = ''oidc_cookie_samesite''"
  by code_simp+

lemma init_defaults:
  assumes "env_vars ''oidc_client_id'' = Some client_id"
    and "env_vars ''oidc_client_secret'' = Some client_secret"
    and "env_vars ''oidc_issuer_url'' = Some issuer_url"
    and "env_vars ''oidc_authorize_url'' = Some authorize_url"
    and "env_vars ''oidc_token_url'' = Some token_url"
    and "env_vars ''oidc_userinfo_url'' = Some userinfo_url"
    and "env_vars ''oidc_redirect_uri'' = None" and "env_vars ''oidc_scope'' = None"
    and "env_vars ''oidc_cookie_secure'' = None" and "env_vars ''oidc_cookie_samesite'' = None"
  shows "OIDCSettings_init env_vars =
        Inr \<lparr>CLIENT_ID = client_id, CLIENT_SECRET = client_secret, ISSUER_URL = issuer_url,
             AUTHORIZE_URL = authorize_url, TOKEN_URL = token_url, USERINFO_URL = userinfo_url,
             REDIRECT_URI = ''http://localhost:8000/oidc/callback'',
             SCOPE = ''openid email profile'',
             COOKIE_SECURE = False, COOKIE_SAMESITE = Lax\<rparr>"
proof -
  have "field_errors env_vars = []"
    unfolding field_errors_def required_fields_def using assms by (simp add: env_name_simps)
  then show ?thesis
    unfolding OIDCSettings_init_def str_field_def using assms by (simp add: env_name_simps)
qed

lemma parse_samesite_Some:
  "parse_samesite s \<noteq> None \<longleftrightarrow> s = ''lax'' \<or> s = ''strict'' \<or> s = ''none''"
  by (simp add: parse_samesite_def)

lemma env_vars_empty_values_simps:
  "env_vars_empty_values ''oidc_client_id'' = Some []"
  "env_vars_empty_values ''oidc_client_secret'' = Some []"
  "env_vars_empty_values ''oidc_issuer_url'' = Some []"
  "env_vars_empty_values ''oidc_authorize_url'' = Some []"
  "env_vars_empty_values ''oidc_token_url'' = Some []"
  "env_vars_empty_values ''oidc_userinfo_url'' = Some []"
  "env_vars_empty_values ''oidc_redirect_uri'' = None"
  "env_vars_empty_values ''oidc_scope'' = None"
  "env_vars_empty_values ''oidc_cookie_secure'' = None"
  "env_vars_empty_values ''oidc_cookie_samesite'' = None"
  by (simp_all add: env_vars_empty_values_def required_fields_def env_name_simps)

text \<open>
  C8, as the code has it. Constructing the configuration fails when a required field is
  missing (no environment variable has, in lower case, the name \<^verbatim>\<open>oidc_\<close> followed by the
  field's name in lower case), with that field reported as missing, and when
  \<^verbatim>\<open>COOKIE_SAMESITE\<close> is given a value other than \<^verbatim>\<open>lax\<close>, \<^verbatim>\<open>strict\<close> or \<^verbatim>\<open>none\<close>. When the
  six required fields are set and the four others are not, it succeeds with the given
  values and the defaults \<^verbatim>\<open>REDIRECT_URI = http://localhost:8000/oidc/callback\<close>,
  \<^verbatim>\<open>SCOPE = "openid email profile"\<close>, \<^verbatim>\<open>COOKIE_SECURE = False\<close> and
  \<^verbatim>\<open>COOKIE_SAMESITE = "lax"\<close>. It succeeds exactly when every required field is set, to any
  string, and \<^verbatim>\<open>COOKIE_SECURE\<close> and \<^verbatim>\<open>COOKIE_SAMESITE\<close>, where given, are values of their
  types.
\<close>

theorem settings_validation:
  "(f \<in> set required_fields \<and> env_vars (env_name f) = None \<longrightarrow>
      (\<exists>errs. OIDCSettings_init env_vars = Inl errs \<and> (f, missing) \<in> set errs))
   \<and> (env_vars (env_name ''COOKIE_SAMESITE'') = Some s
        \<and> s \<noteq> ''lax'' \<and> s \<noteq> ''strict'' \<and> s \<noteq> ''none'' \<longrightarrow>
      (\<exists>errs. OIDCSettings_init env_vars = Inl errs
         \<and> (''COOKIE_SAMESITE'', literal_error) \<in> set errs))
   \<and> (env_vars ''oidc_client_id'' = Some client_id
        \<and> env_vars ''oidc_client_secret'' = Some client_secret
        \<and> env_vars ''oidc_issuer_url'' = Some issuer_url
        \<and> env_vars ''oidc_authorize_url'' = Some authorize_url
        \<and> env_vars ''oidc_token_url'' = Some token_url
        \<and> env_vars ''oidc_userinfo_url'' = Some userinfo_url
        \<and> env_vars ''oidc_redirect_uri'' = None \<and> env_vars ''oidc_scope'' = None
        \<and> env_vars ''oidc_cookie_secure'' = None \<and> env_vars ''oidc_cookie_samesite'' = None \<longrightarrow>
      OIDCSettings_init env_vars =
        Inr \<lparr>CLIENT_ID = client_id, CLIENT_SECRET = client_secret, ISSUER_URL = issuer_url,
             AUTHORIZE_URL = authorize_url, TOKEN_URL = token_url, USERINFO_URL = userinfo_url,
             REDIRECT_URI = ''http://localhost:8000/oidc/callback'',
             SCOPE = ''openid email profile'',
             COOKIE_SECURE = False, COOKIE_SAMESITE = Lax\<rparr>)
   \<and> ((\<exists>config. OIDCSettings_init env_vars = Inr config) \<longleftrightarrow>
        (\<forall>f \<in> set required_fields. env_vars (env_name f) \<noteq> None)
        \<and> (\<forall>s. env_vars (env_name ''COOKIE_SECURE'') = Some s \<longrightarrow> parse_bool s \<noteq> None)
        \<and> (\<forall>s. env_vars (env_name ''COOKIE_SAMESITE'') = Some s \<longrightarrow>
               s = ''lax'' \<or> s = ''strict'' \<or> s = ''none''))"
proof (intro conjI impI)
  show "\<exists>errs. OIDCSettings_init env_vars = Inl errs \<and> (f, missing) \<in> set errs"
    if "f \<in> set required_fields \<and> env_vars (env_name f) = None"
    using that by (intro init_fails missing_in_errors) simp_all
  show "\<exists>errs. OIDCSettings_init env_vars = Inl errs
         \<and> (''COOKIE_SAMESITE'', literal_error) \<in> set errs"
    if "env_vars (env_name ''COOKIE_SAMESITE'') = Some s
        \<and> s \<noteq> ''lax'' \<and> s \<noteq> ''strict'' \<and> s \<noteq> ''none''"
  proof (rule init_fails, rule literal_in_errors)
    show "env_vars (env_name ''COOKIE_SAMESITE'') = Some s"
      using that by simp
    show "parse_samesite s = None"
      using that by (simp add: parse_samesite_None)
  qed
  show "OIDCSettings_init env_vars =
        Inr \<lparr>CLIENT_ID = client_id, CLIENT_SECRET = client_secret, ISSUER_URL = issuer_url,
             AUTHORIZE_URL = authorize_url, TOKEN_URL = token_url, USERINFO_URL = userinfo_url,
             REDIRECT_URI = ''http://localhost:8000/oidc/callback'',
             SCOPE = ''openid email profile'',
             COOKIE_SECURE = False, COOKIE_SAMESITE = Lax\<rparr>"
    if "env_vars ''oidc_client_id'' = Some client_id
        \<and> env_vars ''oidc_client_secret'' = Some client_secret
        \<and> env_vars ''oidc_issuer_url'' = Some issuer_url
        \<and> env_vars ''oidc_authorize_url'' = Some authorize_url
        \<and> env_vars ''oidc_token_url'' = Some token_url
        \<and> env_vars ''oidc_userinfo_url'' = Some userinfo_url
        \<and> env_vars ''oidc_redirect_uri'' = None \<and> env_vars ''oidc_scope'' = None
        \<and> env_vars ''oidc_cookie_secure'' = None \<and> env_vars ''oidc_cookie_samesite'' = None"
    using that by (intro init_defaults) simp_all
  show "(\<exists>config. OIDCSettings_init env_vars = Inr config) \<longleftrightarrow>
        (\<forall>f \<in> set required_fields. env_vars (env_name f) \<noteq> None)
        \<and> (\<forall>s. env_vars (env_name ''COOKIE_SECURE'') = Some s \<longrightarrow> parse_bool s \<noteq> None)
        \<and> (\<forall>s. env_vars (env_name ''COOKIE_SAMESITE'') = Some s \<longrightarrow>
               s = ''lax'' \<or> s = ''strict'' \<or> s = ''none'')"
    unfolding init_succeeds_iff field_errors_Nil parse_samesite_Some ..
qed

text \<open>
  C8, as the claim states it, fails for empty values: with every required field set to
  the empty string (\<^verbatim>\<open>OIDC_CLIENT_ID=\<close> and so on) the construction succeeds.
\<close>

theorem settings_empty_values_counterexample:
  "env_vars_empty_values ''oidc_client_id'' = Some []
   \<and> OIDCSettings_init env_vars_empty_values =
     Inr \<lparr>CLIENT_ID = [], CLIENT_SECRET = [], ISSUER_URL = [], AUTHORIZE_URL = [],
          TOKEN_URL = [], USERINFO_URL = [],
          REDIRECT_URI = ''http://localhost:8000/oidc/callback'',
          SCOPE = ''openid email profile'',
          COOKIE_SECURE = False, COOKIE_SAMESITE = Lax\<rparr>"
  using init_defaults [of env_vars_empty_values "[]" "[]" "[]" "[]" "[]" "[]"]
  by (simp add: env_vars_empty_values_simps)

lemma env_vars_ok_simps:
  "env_vars_ok ''oidc_client_id'' = Some ''abc123''"
  "env_vars_ok ''oidc_client_secret'' = Some ''s3cret''"
  "env_vars_ok ''oidc_issuer_url'' = Some ''https://idp.example''"
  "env_vars_ok ''oidc_authorize_url'' = Some ''https://idp.example/authorize''"
  "env_vars_ok ''oidc_token_url'' = Some ''https://idp.example/token''"
  "env_vars_ok ''oidc_userinfo_url'' = Some ''https://idp.example/userinfo''"
  "env_vars_ok ''oidc_redirect_uri'' = None"
  "env_vars_ok ''oidc_scope'' = None"
  "env_vars_ok ''oidc_cookie_secure'' = None"
  "env_vars_ok ''oidc_cookie_samesite'' = None"
  by (simp_all add: env_vars_ok_def)

theorem settings_validation_witness:
  "(\<exists>errs. OIDCSettings_init Map.empty = Inl errs \<and> (''CLIENT_ID'', missing) \<in> set errs)
   \<and> (\<exists>errs. OIDCSettings_init (env_vars_ok(''oidc_cookie_samesite'' \<mapsto> ''Lax'')) = Inl errs
         \<and> (''COOKIE_SAMESITE'', literal_error) \<in> set errs)
   \<and> OIDCSettings_init env_vars_ok = Inr cfg0
   \<and> (\<exists>config. OIDCSettings_init env_vars_ok = Inr config)"
proof -
  have h1: "''CLIENT_ID'' \<in> set required_fields
      \<and> (Map.empty :: string \<rightharpoonup> string) (env_name ''CLIENT_ID'') = None"
    by (simp add: required_fields_def)
  have h2: "(env_vars_ok(''oidc_cookie_samesite'' \<mapsto> ''Lax'')) (env_name ''COOKIE_SAMESITE'') = Some ''Lax''
      \<and> ''Lax'' \<noteq> ''lax'' \<and> ''Lax'' \<noteq> ''strict'' \<and> ''Lax'' \<noteq> ''none''"
    by (simp add: env_name_simps)
  have h3: "env_vars_ok ''oidc_client_id'' = Some (CLIENT_ID cfg0)
        \<and> env_vars_ok ''oidc_client_secret'' = Some (CLIENT_SECRET cfg0)
        \<and> env_vars_ok ''oidc_issuer_url'' = Some (ISSUER_URL cfg0)
        \<and> env_vars_ok ''oidc_authorize_url'' = Some (AUTHORIZE_URL cfg0)
        \<and> env_vars_ok ''oidc_token_url'' = Some (TOKEN_URL cfg0)
        \<and> env_vars_ok ''oidc_userinfo_url'' = Some (USERINFO_URL cfg0)
        \<and> env_vars_ok ''oidc_redirect_uri'' = None \<and> env_vars_ok ''oidc_scope'' = None
        \<and> env_vars_ok ''oidc_cookie_secure'' = None \<and> env_vars_ok ''oidc_cookie_samesite'' = None"
    by (simp add: env_vars_ok_simps cfg0_def)
  have h4: "(\<forall>f \<in> set required_fields. env_vars_ok (env_name f) \<noteq> None)
        \<and> (\<forall>s. env_vars_ok (env_name ''COOKIE_SECURE'') = Some s \<longrightarrow> parse_bool s \<noteq> None)
        \<and> (\<forall>s. env_vars_ok (env_name ''COOKIE_SAMESITE'') = Some s \<longrightarrow>
               s = ''lax'' \<or> s = ''strict'' \<or> s = ''none'')"
    by (simp add: required_fields_def env_name_simps env_vars_ok_simps)
  have c1: "\<exists>errs. OIDCSettings_init Map.empty = Inl errs \<and> (''CLIENT_ID'', missing) \<in> set errs"
    using settings_validation [where f = "''CLIENT_ID''" and env_vars = Map.empty] h1
    by blast
  have c2: "\<exists>errs. OIDCSettings_init (env_vars_ok(''oidc_cookie_samesite'' \<mapsto> ''Lax'')) = Inl errs
         \<and> (''COOKIE_SAMESITE'', literal_error) \<in> set errs"
    using settings_validation [where s = "''Lax''"
        and env_vars = "env_vars_ok(''oidc_cookie_samesite'' \<mapsto> ''Lax'')"] h2
    by blast
  have "OIDCSettings_init env_vars_ok =
        Inr \<lparr>CLIENT_ID = CLIENT_ID cfg0, CLIENT_SECRET = CLIENT_SECRET cfg0,
             ISSUER_URL = ISSUER_URL cfg0, AUTHORIZE_URL = AUTHORIZE_URL cfg0,
             TOKEN_URL = TOKEN_URL cfg0, USERINFO_URL = USERINFO_URL cfg0,
             REDIRECT_URI = ''http://localhost:8000/oidc/callback'',
             SCOPE = ''openid email profile'',
             COOKIE_SECURE = False, COOKIE_SAMESITE = Lax\<rparr>"
    using settings_validation [where env_vars = env_vars_ok and client_id = "CLIENT_ID cfg0"
        and client_secret = "CLIENT_SECRET cfg0" and issuer_url = "ISSUER_URL cfg0"
        and authorize_url = "AUTHORIZE_URL cfg0" and token_url = "TOKEN_URL cfg0"
        and userinfo_url = "USERINFO_URL cfg0"] h3
    by blast
  then have c3: "OIDCSettings_init env_vars_ok = Inr cfg0"
    by (simp add: cfg0_def)
  have c4: "\<exists>config. OIDCSettings_init env_vars_ok = Inr config"
    using settings_validation [where env_vars = env_vars_ok] h4
    by blast
  show ?thesis
    using c1 c2 c3 c4 by blast
qed

text \<open>
  Variable names are matched without regard to case: the upper-case environment gives
  the same configuration as the lower-case \<open>env_vars_ok\<close>.
\<close>

lemma lower_char_simps:
  "lower_char CHR ''A'' = CHR ''a''"
  "lower_char CHR ''B'' = CHR ''b''"
  "lower_char CHR ''C'' = CHR ''c''"
  "lower_char CHR ''D'' = CHR ''d''"
  "lower_char CHR ''E'' = CHR ''e''"
  "lower_char CHR ''F'' = CHR ''f''"
  "lower_char CHR ''G'' = CHR ''g''"
  "lower_char CHR ''H'' = CHR ''h''"
  "lower_char CHR ''I'' = CHR ''i''"
  "lower_char CHR ''J'' = CHR ''j''"
  "lower_char CHR ''K'' = CHR ''k''"
  "lower_char CHR ''L'' = CHR ''l''"
  "lower_char CHR ''M'' = CHR ''m''"
  "lower_char CHR ''N'' = CHR ''n''"
  "lower_char CHR ''O'' = CHR ''o''"
  "lower_char CHR ''P'' = CHR ''p''"
  "lower_char CHR ''Q'' = CHR ''q''"
  "lower_char CHR ''R'' = CHR ''r''"
  "lower_char CHR ''S'' = CHR ''s''"
  "lower_char CHR ''T'' = CHR ''t''"
  "lower_char CHR ''U'' = CHR ''u''"
  "lower_char CHR ''V'' = CHR ''v''"
  "lower_char CHR ''W'' = CHR ''w''"
  "lower_char CHR ''X'' = CHR ''x''"
  "lower_char CHR ''Y'' = CHR ''y''"
  "lower_char CHR ''Z'' = CHR ''z''"
  "lower_char CHR ''_'' = CHR ''_''"
  by code_simp+

lemma parse_environ_upper:
  "parse_env_vars (map lower_char) environ_upper ''oidc_client_id'' = Some ''abc123''"
  "parse_env_vars (map lower_char) environ_upper ''oidc_client_secret'' = Some ''s3cret''"
  "parse_env_vars (map lower_char) environ_upper ''oidc_issuer_url'' = Some ''https://idp.example''"
  "parse_env_vars (map lower_char) environ_upper ''oidc_authorize_url''
     = Some ''https://idp.example/authorize''"
  "parse_env_vars (map lower_char) environ_upper ''oidc_token_url''
     = Some ''https://idp.example/token''"
  "parse_env_vars (map lower_char) environ_upper ''oidc_userinfo_url''
     = Some ''https://idp.example/userinfo''"
  "parse_env_vars (map lower_char) environ_upper ''oidc_redirect_uri'' = None"
  "parse_env_vars (map lower_char) environ_upper ''oidc_scope'' = None"
  "parse_env_vars (map lower_char) environ_upper ''oidc_cookie_secure'' = None"
  "parse_env_vars (map lower_char) environ_upper ''oidc_cookie_samesite'' = None"
  by (simp_all add: parse_env_vars_def environ_upper_def lower_char_simps)

lemma load_environ_upper: "OIDCSettings_load (map lower_char) environ_upper = Inr cfg0"
  unfolding OIDCSettings_load_def
  using init_defaults [of "parse_env_vars (map lower_char) environ_upper"
      "CLIENT_ID cfg0" "CLIENT_SECRET cfg0" "ISSUER_URL cfg0"
      "AUTHORIZE_URL cfg0" "TOKEN_URL cfg0" "USERINFO_URL cfg0"]
  by (simp add: parse_environ_upper cfg0_def)

section \<open>Identifiers across several logins\<close>

lemma callback_cases:
  "(session_cookie (fst (callback config e store req)) = None
      \<and> snd (callback config e store req) = store)
   \<or> (session_cookie (fst (callback config e store req)) = Some (str_uuid (uuid4 e))
      \<and> (\<exists>session. snd (callback config e store req) = store(str_uuid (uuid4 e) \<mapsto> session)))"
  by (auto simp add: callback_def session_cookie_def JSONResponse_def RedirectResponse_def
      set_cookie_def Let_def split: option.split sum.split)

lemma callback_fresh:
  assumes "session_cookie (fst (callback config e store req)) \<noteq> None"
    and "str_uuid (uuid4 e) \<notin> dom store"
  shows "session_cookie (fst (callback config e store req)) = Some (str_uuid (uuid4 e))"
    and "dom (snd (callback config e store req)) = insert (str_uuid (uuid4 e)) (dom store)"
    and "store \<subseteq>\<^sub>m snd (callback config e store req)"
proof -
  obtain session where cookie: "session_cookie (fst (callback config e store req))
      = Some (str_uuid (uuid4 e))"
    and st: "snd (callback config e store req) = store(str_uuid (uuid4 e) \<mapsto> session)"
    using callback_cases [of config e store req] assms(1) by auto
  show "session_cookie (fst (callback config e store req)) = Some (str_uuid (uuid4 e))"
    by (rule cookie)
  show "dom (snd (callback config e store req)) = insert (str_uuid (uuid4 e)) (dom store)"
    by (simp add: st)
  show "store \<subseteq>\<^sub>m snd (callback config e store req)"
    unfolding st using assms(2) by (auto simp add: map_le_def)
qed

text \<open>
  The identifier of a successful callback is the UUID that \<^verbatim>\<open>uuid4()\<close> draws; the handler
  does not look it up in the store before it writes. In a sequence of callbacks on one
  store that all succeed (each sets a session cookie), if the drawn identifiers are
  pairwise distinct and none is in the store at the start, then the cookies carry exactly
  these identifiers, the store gains exactly these identifiers, every record that was
  there is still there unchanged, and a finite store grows by one record for each
  callback. Whether two draws can coincide is a matter of the random source, which is
  outside this theory.
\<close>

lemma run_callbacks_distinct_ids:
  assumes "run_callbacks config store calls = (outs, store')"
    and "\<forall>out \<in> set outs. session_cookie out \<noteq> None"
    and "distinct (issued_ids calls)"
    and "set (issued_ids calls) \<inter> dom store = {}"
  shows "map session_cookie outs = map Some (issued_ids calls)
     \<and> dom store' = dom store \<union> set (issued_ids calls)
     \<and> store \<subseteq>\<^sub>m store'
     \<and> (finite (dom store) \<longrightarrow> card (dom store') = card (dom store) + length calls)"
  using assms
proof (induction calls arbitrary: store outs)
  case Nil
  then show ?case
    by (simp add: issued_ids_def)
next
  case (Cons c calls)
  obtain e req where c: "c = (e, req)"
    by (cases c)
  let ?sid = "str_uuid (uuid4 e)"
  let ?out = "fst (callback config e store req)"
  let ?store1 = "snd (callback config e store req)"
  let ?rest = "fst (run_callbacks config ?store1 calls)"
  have outs: "outs = ?out # ?rest" and store': "store' = snd (run_callbacks config ?store1 calls)"
    using Cons.prems(1) unfolding c run_callbacks_Cons by simp_all
  have ids: "issued_ids (c # calls) = ?sid # issued_ids calls"
    by (simp add: issued_ids_def c)
  have fresh: "?sid \<notin> dom store" and later: "?sid \<notin> set (issued_ids calls)"
    and dist: "distinct (issued_ids calls)"
    and disj: "set (issued_ids calls) \<inter> dom store = {}"
    using Cons.prems(3,4) unfolding ids by auto
  have ok: "session_cookie ?out \<noteq> None"
    using Cons.prems(2) outs by simp
  note step = callback_fresh [OF ok fresh]
  have disj1: "set (issued_ids calls) \<inter> dom ?store1 = {}"
    using disj later by (simp add: step(2))
  have rest_ok: "\<forall>out \<in> set ?rest. session_cookie out \<noteq> None"
    using Cons.prems(2) outs by simp
  have run: "run_callbacks config ?store1 calls = (?rest, store')"
    by (simp add: store')
  note IH = Cons.IH [OF run rest_ok dist disj1]
  have "map session_cookie outs = map Some (issued_ids (c # calls))"
    using IH step(1) by (simp add: outs ids)
  moreover have "dom store' = dom store \<union> set (issued_ids (c # calls))"
    using IH by (auto simp add: step(2) ids)
  moreover have "store \<subseteq>\<^sub>m store'"
    using step(3) IH by (blast intro: map_le_trans)
  moreover have "card (dom store') = card (dom store) + length (c # calls)"
    if fin: "finite (dom store)"
  proof -
    have grown: "card (dom ?store1) = Suc (card (dom store))"
      using fin fresh by (simp add: step(2))
    have "finite (dom ?store1)"
      using fin by (simp add: step(2))
    then have "card (dom store') = card (dom ?store1) + length calls"
      using IH by blast
    then show ?thesis
      using grown by simp
  qed
  ultimately show ?case
    by blast
qed

lemma callback_tok1:
  "callback cfg0 (provider tok1_reply (json_reply 200 claims) x) store req_code =
     (Inr \<lparr>status = 307, location = Some ''/'', content = None,
           set_cookies =
             [\<lparr>key = ''session_id'', val = str_uuid x, max_age = None,
               expires = None, path = Some ''/'', domain = None,
               secure = False, httponly = True, samesite = Some Lax\<rparr>]\<rparr>,
      store(str_uuid x \<mapsto> [''user'' \<mapsto> claims, ''access_token'' \<mapsto> JStr ''tok1'']))"
  by (simp add: callback_def req_code_def provider_def tok1_reply_def json_reply_def cfg0_def
      RedirectResponse_def set_cookie_def Let_def dict_get_def)

lemma run_two_logins:
  "run_callbacks cfg0 Map.empty two_logins =
     ([fst (callback cfg0 (provider tok1_reply alice_reply uuid_a) Map.empty req_code),
       fst (callback cfg0 (provider tok1_reply bob_reply uuid_b)
              [str_uuid uuid_a \<mapsto> alice_session] req_code)],
      [str_uuid uuid_a \<mapsto> alice_session, str_uuid uuid_b \<mapsto> bob_session])"
  by (simp add: two_logins_def run_callbacks_Cons alice_reply_def bob_reply_def callback_tok1
      alice_session_def bob_session_def)

lemma session_cookie_tok1:
  "session_cookie (fst (callback cfg0 (provider tok1_reply (json_reply 200 claims) x) store req_code))
     = Some (str_uuid x)"
  by (simp add: callback_tok1 session_cookie_def)

lemma run_two_logins_ids:
  "map session_cookie (fst (run_callbacks cfg0 Map.empty two_logins))
     = [Some (str_uuid uuid_a), Some (str_uuid uuid_b)]
   \<and> dom (snd (run_callbacks cfg0 Map.empty two_logins)) = {str_uuid uuid_a, str_uuid uuid_b}
   \<and> card (dom (snd (run_callbacks cfg0 Map.empty two_logins))) = 2"
proof -
  let ?outs = "fst (run_callbacks cfg0 Map.empty two_logins)"
  let ?store' = "snd (run_callbacks cfg0 Map.empty two_logins)"
  have ids: "issued_ids two_logins = [str_uuid uuid_a, str_uuid uuid_b]"
    by (simp add: issued_ids_def two_logins_def provider_def)
  have h1: "run_callbacks cfg0 Map.empty two_logins = (?outs, ?store')"
    by simp
  have h2: "\<forall>out \<in> set ?outs. session_cookie out \<noteq> None"
    by (simp add: run_two_logins alice_reply_def bob_reply_def session_cookie_tok1)
  have h3: "distinct (issued_ids two_logins)"
    by (simp add: ids str_uuid_a str_uuid_b)
  have h4: "set (issued_ids two_logins) \<inter> dom (Map.empty :: session_store) = {}"
    by simp
  have h5: "finite (dom (Map.empty :: session_store))"
    by simp
  have len: "length two_logins = 2"
    by (simp add: two_logins_def)
  show ?thesis
    using run_callbacks_distinct_ids [OF h1 h2 h3 h4] h5
    by (auto simp add: ids len)
qed

end
